theory Spec2Isabelle
  imports Complex_Main "HOL-Library.Log_Nat"
begin

section \<open>JavaScript numbers\<close>

text \<open>
  The risk classifier of \<^verbatim>\<open>src/frontend/src/App.js\<close> (component \<^verbatim>\<open>RiskAssessment\<close>)
  computes with JavaScript Numbers, that is IEEE 754 binary64 values. Exact
  arithmetic is not a model of it: with the sub-scores 0, 1, 0, 0 the code stores the
  percentage 3, where exact arithmetic gives 3.5 and rounds it to 4. So a Number is
  modelled as what it is: NaN, an infinity, or a finite rational, and every product, sum
  and quotient is rounded to the nearest binary64 value, ties to the even significand.

  Two simplifications, neither visible to this program. The two zeros are one value
  (no operation used here tells \<^verbatim>\<open>-0\<close> from \<^verbatim>\<open>+0\<close>: the only divisor is the literal 10).
  And \<open>Fin\<close> holds any rational, so the type is larger than the set of Numbers:
  the finite Numbers are the rationals that the rounding \<open>fl\<close> leaves as they are,
  and \<open>fl\<close> returns no others (\<open>fl_fixed\<close> below). What is proved for all of
  \<open>number\<close> holds for the Numbers in it.
\<close>

datatype number = NaN | NInf | Fin rat | PInf

text \<open>\<open>ilog2 x\<close> is the binary exponent of a positive rational: \<open>2 powi ilog2 x \<le> x < 2 powi (ilog2 x + 1)\<close>.\<close>

definition ilog2 :: "rat \<Rightarrow> int" where
  "ilog2 x = (let (p, q) = quotient_of x; d = bitlen p - bitlen q
              in if 2 powi d \<le> x then d else d - 1)"

definition roundHalfEven :: "rat \<Rightarrow> int" where
  "roundHalfEven z = (let f = \<lfloor>z\<rfloor>; d = z - of_int f
                      in if d < 1 / 2 then f else if 1 / 2 < d then f + 1
                         else if even f then f else f + 1)"

text \<open>
  The spacing of binary64 values around a positive \<open>x\<close> is \<open>2 powi quantum x\<close>: 53
  significant bits, and never finer than the smallest subnormal \<open>2 powi - 1074\<close>.
\<close>

definition quantum :: "rat \<Rightarrow> int" where
  "quantum x = max (ilog2 x - 52) (- 1074)"

definition nearest :: "rat \<Rightarrow> rat" where
  "nearest x = of_int (roundHalfEven (x / 2 powi quantum x)) * 2 powi quantum x"

text \<open>Rounding of an exact result to a Number; a result of magnitude \<open>2 ^ 1024\<close> or more overflows.\<close>

definition fl :: "rat \<Rightarrow> number" where
  "fl x = (if x = 0 then Fin 0
           else if 0 < x then (let r = nearest x in if 2 ^ 1024 \<le> r then PInf else Fin r)
           else (let r = nearest (- x) in if 2 ^ 1024 \<le> r then NInf else Fin (- r)))"

text \<open>A numeric literal of the source text denotes the Number nearest to its decimal value.\<close>

definition lit :: "rat \<Rightarrow> number" where
  "lit d = fl d"

text \<open>The operator \<^verbatim>\<open>*\<close>.\<close>

fun jmul :: "number \<Rightarrow> number \<Rightarrow> number" where
  "jmul NaN y = NaN"
| "jmul x NaN = NaN"
| "jmul (Fin a) (Fin b) = fl (a * b)"
| "jmul (Fin a) PInf = (if a = 0 then NaN else if 0 < a then PInf else NInf)"
| "jmul (Fin a) NInf = (if a = 0 then NaN else if 0 < a then NInf else PInf)"
| "jmul PInf (Fin b) = (if b = 0 then NaN else if 0 < b then PInf else NInf)"
| "jmul NInf (Fin b) = (if b = 0 then NaN else if 0 < b then NInf else PInf)"
| "jmul PInf PInf = PInf"
| "jmul PInf NInf = NInf"
| "jmul NInf PInf = NInf"
| "jmul NInf NInf = PInf"

text \<open>The operator \<^verbatim>\<open>+\<close> on Numbers.\<close>

fun jadd :: "number \<Rightarrow> number \<Rightarrow> number" where
  "jadd NaN y = NaN"
| "jadd x NaN = NaN"
| "jadd (Fin a) (Fin b) = fl (a + b)"
| "jadd (Fin a) PInf = PInf"
| "jadd (Fin a) NInf = NInf"
| "jadd PInf (Fin b) = PInf"
| "jadd NInf (Fin b) = NInf"
| "jadd PInf PInf = PInf"
| "jadd PInf NInf = NaN"
| "jadd NInf PInf = NaN"
| "jadd NInf NInf = NInf"

text \<open>
  The operator \<^verbatim>\<open>/\<close>. The one zero of the model divides as \<^verbatim>\<open>+0\<close> does; the program
  divides by the literal 10 only.
\<close>

fun jdiv :: "number \<Rightarrow> number \<Rightarrow> number" where
  "jdiv NaN y = NaN"
| "jdiv x NaN = NaN"
| "jdiv (Fin a) (Fin b) =
     (if b = 0 then (if a = 0 then NaN else if 0 < a then PInf else NInf) else fl (a / b))"
| "jdiv (Fin a) PInf = Fin 0"
| "jdiv (Fin a) NInf = Fin 0"
| "jdiv PInf (Fin b) = (if 0 \<le> b then PInf else NInf)"
| "jdiv NInf (Fin b) = (if 0 \<le> b then NInf else PInf)"
| "jdiv PInf PInf = NaN"
| "jdiv PInf NInf = NaN"
| "jdiv NInf PInf = NaN"
| "jdiv NInf NInf = NaN"

text \<open>The comparisons \<^verbatim>\<open><=\<close> and \<^verbatim>\<open><\<close>: false as soon as an operand is NaN.\<close>

fun jle :: "number \<Rightarrow> number \<Rightarrow> bool" where
  "jle NaN y = False"
| "jle x NaN = False"
| "jle NInf y = True"
| "jle x PInf = True"
| "jle (Fin a) (Fin b) = (a \<le> b)"
| "jle (Fin a) NInf = False"
| "jle PInf y = False"

fun jlt :: "number \<Rightarrow> number \<Rightarrow> bool" where
  "jlt NaN y = False"
| "jlt x NaN = False"
| "jlt (Fin a) (Fin b) = (a < b)"
| "jlt NInf NInf = False"
| "jlt NInf y = True"
| "jlt PInf y = False"
| "jlt (Fin a) PInf = True"
| "jlt (Fin a) NInf = False"

text \<open>
  \<^verbatim>\<open>Math.round\<close>: the integer nearest to the argument, a tie going towards \<open>+\<infinity>\<close>;
  NaN and the infinities are returned as they are.
\<close>

fun Math_round :: "number \<Rightarrow> number" where
  "Math_round (Fin x) = Fin (of_int \<lfloor>x + 1 / 2\<rfloor>)"
| "Math_round x = x"

section \<open>The state of the component\<close>

text \<open>
  \<^verbatim>\<open>riskFactors\<close> is an object of objects, and \<^verbatim>\<open>updateRiskFactor\<close> writes it through
  computed keys, so it is a map from category names to maps from field names to values.
  The fields hold numbers and strings.
\<close>

datatype jsval = Num number | Str string

type_synonym factor = "string \<rightharpoonup> jsval"
type_synonym riskFactors = "string \<rightharpoonup> factor"

text \<open>The level is one of the four string constants \<^verbatim>\<open>'LOW'\<close>, \<^verbatim>\<open>'MODERATE'\<close>, \<^verbatim>\<open>'HIGH'\<close>, \<^verbatim>\<open>'EXTREME'\<close>.\<close>

datatype riskLevel = LOW | MODERATE | HIGH | EXTREME

text \<open>The icon elements \<^verbatim>\<open><CheckCircle size={24} />\<close> and the like, with their size.\<close>

datatype icon = CheckCircle nat | AlertTriangle nat | XCircle nat

record overallRisk =
  score :: number
  level :: riskLevel
  color :: string
  percentage :: number

record recommendation =
  action :: string
  message :: string
  details :: "string list"
  icon :: icon

text \<open>
  The three state cells the functions below read and write. \<^verbatim>\<open>overallRisk\<close> and
  \<^verbatim>\<open>recommendation\<close> start as the empty object \<^verbatim>\<open>{}\<close>, here \<open>None\<close>.
\<close>

record state =
  riskFactors :: riskFactors
  overallRisk :: "overallRisk option"
  recommendation :: "recommendation option"

definition initialRiskFactors :: riskFactors where
  "initialRiskFactors =
     [''weather'' \<mapsto>
        [''temperature'' \<mapsto> Num (lit (- 5)), ''windSpeed'' \<mapsto> Num (lit 35),
         ''visibility'' \<mapsto> Num (lit 150), ''forecast'' \<mapsto> Str ''deteriorating'',
         ''precipitation'' \<mapsto> Str ''snow'', ''score'' \<mapsto> Num (lit 6)],
      ''avalanche'' \<mapsto>
        [''level'' \<mapsto> Num (lit 3), ''trend'' \<mapsto> Str ''increasing'',
         ''newSnow'' \<mapsto> Num (lit 25), ''windLoading'' \<mapsto> Str ''moderate'',
         ''score'' \<mapsto> Num (lit 7)],
      ''terrain'' \<mapsto>
        [''elevation'' \<mapsto> Num (lit 2800), ''slope'' \<mapsto> Num (lit 38),
         ''aspect'' \<mapsto> Str ''north'', ''difficulty'' \<mapsto> Str ''intermediate'',
         ''score'' \<mapsto> Num (lit 5)],
      ''group'' \<mapsto>
        [''experience'' \<mapsto> Str ''intermediate'', ''groupSize'' \<mapsto> Num (lit 3),
         ''equipment'' \<mapsto> Str ''complete'', ''fitness'' \<mapsto> Str ''good'',
         ''score'' \<mapsto> Num (lit 4)]]"

definition initialState :: state where
  "initialState = \<lparr>riskFactors = initialRiskFactors, overallRisk = None, recommendation = None\<rparr>"

section \<open>The risk classifier\<close>

text \<open>
  The decimal values of the four weight literals as the source text writes them, and the
  object \<^verbatim>\<open>weights\<close> the code multiplies by: the Numbers these literals denote.
  (The field for \<^verbatim>\<open>group\<close> is primed, \<open>group\<close> being a constant of HOL.)
\<close>

record 'a weightsOf =
  weather :: 'a
  avalanche :: 'a
  terrain :: 'a
  group' :: 'a

definition weightLiterals :: "rat weightsOf" where
  "weightLiterals = \<lparr>weather = 3 / 10, avalanche = 35 / 100, terrain = 2 / 10, group' = 15 / 100\<rparr>"

definition weights :: "number weightsOf" where
  "weights = \<lparr>weather = lit (weather weightLiterals), avalanche = lit (avalanche weightLiterals),
              terrain = lit (terrain weightLiterals), group' = lit (group' weightLiterals)\<rparr>"

text \<open>
  What can stop the function: reading \<^verbatim>\<open>.score\<close> of a category that is not there raises
  a TypeError. A missing \<^verbatim>\<open>score\<close> is \<^verbatim>\<open>undefined\<close>, which \<^verbatim>\<open>*\<close> turns into NaN. A
  string would be parsed as a number by \<^verbatim>\<open>*\<close>; that conversion is not modelled, and the
  model stops with \<open>StringOperand\<close> where the code would go on. So what is proved
  of \<open>calculateOverallRisk\<close> below is proved of the states whose four scores are
  numbers (\<open>subScores\<close> returns \<open>Inr\<close>), and nothing is concluded where a score
  holds a string.
\<close>

datatype error = TypeError | StringOperand

definition subScore :: "riskFactors \<Rightarrow> string \<Rightarrow> error + number" where
  "subScore rf category =
     (case rf category of
        None \<Rightarrow> Inl TypeError
      | Some f \<Rightarrow>
          (case f ''score'' of
             None \<Rightarrow> Inr NaN
           | Some (Num n) \<Rightarrow> Inr n
           | Some (Str s) \<Rightarrow> Inl StringOperand))"

text \<open>The four sub-scores in the order the expression reads them.\<close>

definition subScores :: "riskFactors \<Rightarrow> error + (number \<times> number \<times> number \<times> number)" where
  "subScores rf =
     (case subScore rf ''weather'' of Inl e \<Rightarrow> Inl e | Inr w \<Rightarrow>
     (case subScore rf ''avalanche'' of Inl e \<Rightarrow> Inl e | Inr a \<Rightarrow>
     (case subScore rf ''terrain'' of Inl e \<Rightarrow> Inl e | Inr t \<Rightarrow>
     (case subScore rf ''group'' of Inl e \<Rightarrow> Inl e | Inr g \<Rightarrow> Inr (w, a, t, g)))))"

definition calculateOverallRisk :: "state \<Rightarrow> error + state" where
  "calculateOverallRisk st =
     (case subScores (riskFactors st) of
        Inl e \<Rightarrow> Inl e
      | Inr (w, a, t, g) \<Rightarrow>
          let weightedScore =
                jadd (jadd (jadd (jmul w (weather weights)) (jmul a (avalanche weights)))
                           (jmul t (terrain weights)))
                     (jmul g (group' weights));
              (riskLevel, color, recommendation) =
                (if jle weightedScore (lit 3) then
                   (LOW, ''#10b981'',
                    \<lparr>action = ''GO'',
                     message = ''Risk profile supports resilient activity execution'',
                     details =
                       [''Weather conditions are stable and favorable'',
                        ''Avalanche risk is within acceptable parameters'',
                        ''Route complexity matches group capabilities'',
                        ''Proceed with standard resilience measures''],
                     icon = CheckCircle 24\<rparr>)
                 else if jle weightedScore (lit 5) then
                   (MODERATE, ''#f59e0b'',
                    \<lparr>action = ''CAUTION'',
                     message = ''Enhanced resilience measures required for safe execution'',
                     details =
                       [''Implement continuous monitoring of changing conditions'',
                        ''Verify latest hazard bulletins and warnings'',
                        ''Deploy comprehensive risk mitigation equipment'',
                        ''Activate contingency planning and alternative routes''],
                     icon = AlertTriangle 24\<rparr>)
                 else if jle weightedScore (lit 7) then
                   (HIGH, ''#f97316'',
                    \<lparr>action = ''RECONSIDER'',
                     message = ''Risk exposure exceeds resilience capacity thresholds'',
                     details =
                       [''Current hazard profile surpasses acceptable risk tolerance'',
                        ''Recommend postponement pending improved conditions'',
                        ''Professional risk management expertise required if proceeding'',
                        ''Deploy advanced emergency response infrastructure''],
                     icon = AlertTriangle 24\<rparr>)
                 else
                   (EXTREME, ''#dc2626'',
                    \<lparr>action = ''CRITICAL RISK'',
                     message = ''Hazard exposure incompatible with population safety'',
                     details =
                       [''Multiple catastrophic risk vectors converging'',
                        ''Environmental conditions pose extreme societal threat'',
                        ''Restrict access to secured, controlled environments only'',
                        ''Await substantial hazard mitigation before reconsidering''],
                     icon = XCircle 24\<rparr>))
          in Inr (st\<lparr>overallRisk :=
                        Some \<lparr>score = weightedScore, level = riskLevel, color = color,
                              percentage = Math_round (jmul (jdiv weightedScore (lit 10)) (lit 100))\<rparr>,
                      recommendation := Some recommendation\<rparr>))"

text \<open>
  \<^verbatim>\<open>setRiskFactors(prev => ({...prev, [category]: {...prev[category], [field]: value}}))\<close>;
  spreading the \<^verbatim>\<open>undefined\<close> of a category that is not there gives the empty object.
\<close>

definition updateRiskFactor :: "string \<Rightarrow> string \<Rightarrow> jsval \<Rightarrow> state \<Rightarrow> state" where
  "updateRiskFactor category field val st =
     st\<lparr>riskFactors :=
          (\<lambda>prev. prev(category \<mapsto>
                     (case prev category of None \<Rightarrow> Map.empty | Some f \<Rightarrow> f)(field \<mapsto> val)))
            (riskFactors st)\<rparr>"

definition getRiskColor :: "number \<Rightarrow> string" where
  "getRiskColor s =
     (if jle s (lit 3) then ''#10b981''
      else if jle s (lit 5) then ''#f59e0b''
      else if jle s (lit 7) then ''#f97316''
      else ''#dc2626'')"

section \<open>Notions used in the statements and proofs\<close>

text \<open>
  None of these is in the source. \<open>nle\<close> is the order in which sums and products are
  monotone even through NaN: NaN and \<open>+\<infinity>\<close> are both greatest (a sum can go from NaN
  to \<open>+\<infinity>\<close> when a term increases from \<open>-\<infinity>\<close>). \<open>severity\<close> numbers the levels from
  LOW to EXTREME. \<open>weightedScore\<close> and \<open>riskLevelOf\<close> name the expression and the
  conditional chain of \<open>calculateOverallRisk\<close>; \<open>tierColor\<close> and \<open>tierRecommendation\<close>
  tabulate per level what its four branches assign. \<open>withScores\<close> sets the four
  sub-scores of a state by four calls of \<open>updateRiskFactor\<close>.
\<close>

definition nle :: "number \<Rightarrow> number \<Rightarrow> bool" where
  "nle a b \<longleftrightarrow> b = NaN \<or> b = PInf \<or> jle a b"

fun severity :: "riskLevel \<Rightarrow> nat" where
  "severity LOW = 0"
| "severity MODERATE = 1"
| "severity HIGH = 2"
| "severity EXTREME = 3"

definition weightedScore :: "number \<Rightarrow> number \<Rightarrow> number \<Rightarrow> number \<Rightarrow> number" where
  "weightedScore w a t g =
     jadd (jadd (jadd (jmul w (weather weights)) (jmul a (avalanche weights)))
                (jmul t (terrain weights)))
          (jmul g (group' weights))"

definition riskLevelOf :: "number \<Rightarrow> riskLevel" where
  "riskLevelOf s =
     (if jle s (lit 3) then LOW
      else if jle s (lit 5) then MODERATE
      else if jle s (lit 7) then HIGH
      else EXTREME)"

fun tierColor :: "riskLevel \<Rightarrow> string" where
  "tierColor LOW = ''#10b981''"
| "tierColor MODERATE = ''#f59e0b''"
| "tierColor HIGH = ''#f97316''"
| "tierColor EXTREME = ''#dc2626''"

fun tierRecommendation :: "riskLevel \<Rightarrow> recommendation" where
  "tierRecommendation LOW =
     \<lparr>action = ''GO'',
      message = ''Risk profile supports resilient activity execution'',
      details =
        [''Weather conditions are stable and favorable'',
         ''Avalanche risk is within acceptable parameters'',
         ''Route complexity matches group capabilities'',
         ''Proceed with standard resilience measures''],
      icon = CheckCircle 24\<rparr>"
| "tierRecommendation MODERATE =
     \<lparr>action = ''CAUTION'',
      message = ''Enhanced resilience measures required for safe execution'',
      details =
        [''Implement continuous monitoring of changing conditions'',
         ''Verify latest hazard bulletins and warnings'',
         ''Deploy comprehensive risk mitigation equipment'',
         ''Activate contingency planning and alternative routes''],
      icon = AlertTriangle 24\<rparr>"
| "tierRecommendation HIGH =
     \<lparr>action = ''RECONSIDER'',
      message = ''Risk exposure exceeds resilience capacity thresholds'',
      details =
        [''Current hazard profile surpasses acceptable risk tolerance'',
         ''Recommend postponement pending improved conditions'',
         ''Professional risk management expertise required if proceeding'',
         ''Deploy advanced emergency response infrastructure''],
      icon = AlertTriangle 24\<rparr>"
| "tierRecommendation EXTREME =
     \<lparr>action = ''CRITICAL RISK'',
      message = ''Hazard exposure incompatible with population safety'',
      details =
        [''Multiple catastrophic risk vectors converging'',
         ''Environmental conditions pose extreme societal threat'',
         ''Restrict access to secured, controlled environments only'',
         ''Await substantial hazard mitigation before reconsidering''],
      icon = XCircle 24\<rparr>"

definition withScores :: "number \<Rightarrow> number \<Rightarrow> number \<Rightarrow> number \<Rightarrow> state \<Rightarrow> state" where
  "withScores w a t g st =
     updateRiskFactor ''group'' ''score'' (Num g)
       (updateRiskFactor ''terrain'' ''score'' (Num t)
         (updateRiskFactor ''avalanche'' ''score'' (Num a)
           (updateRiskFactor ''weather'' ''score'' (Num w) st)))"

section \<open>Rounding is monotone\<close>

text \<open>
  \<open>ilog2\<close> is the binary exponent, so the spacing \<open>quantum\<close> grows with the argument.
  Within one spacing \<open>nearest\<close> is monotone because rounding to an integer is; across two
  spacings a power of two lies between the arguments and between the results.
\<close>

lemma ilog2_bounds:
  assumes "0 < x"
  shows "2 powi ilog2 x \<le> x \<and> x < 2 powi (ilog2 x + 1)"
proof -
  obtain p q where pq: "quotient_of x = (p, q)" by (cases "quotient_of x")
  have q: "0 < q" using pq by (rule quotient_of_denom_pos)
  have x: "x = of_int p / of_int q" using pq by (rule quotient_of_div)
  have p: "0 < p" using assms q x by (simp add: zero_less_divide_iff)
  define d where "d = bitlen p - bitlen q"
  have bp: "1 \<le> bitlen p" and bq: "1 \<le> bitlen q"
    using p q by (simp_all add: bitlen_alt_def)
  have p1: "(2::rat) powi (bitlen p - 1) \<le> of_int p"
  proof -
    have "(2::int) ^ nat (bitlen p - 1) \<le> p" using bitlen_bounds[OF p] by simp
    then have "of_int ((2::int) ^ nat (bitlen p - 1)) \<le> (of_int p :: rat)"
      by (simp only: of_int_le_iff)
    then show ?thesis using bp by (simp add: power_int_def)
  qed
  have p2: "of_int p < (2::rat) powi bitlen p"
  proof -
    have "p < (2::int) ^ nat (bitlen p)" using bitlen_bounds[OF p] by simp
    then have "(of_int p :: rat) < of_int ((2::int) ^ nat (bitlen p))"
      by (simp only: of_int_less_iff)
    then show ?thesis using bp by (simp add: power_int_def)
  qed
  have q1: "(2::rat) powi (bitlen q - 1) \<le> of_int q"
  proof -
    have "(2::int) ^ nat (bitlen q - 1) \<le> q" using bitlen_bounds[OF q] by simp
    then have "of_int ((2::int) ^ nat (bitlen q - 1)) \<le> (of_int q :: rat)"
      by (simp only: of_int_le_iff)
    then show ?thesis using bq by (simp add: power_int_def)
  qed
  have q2: "of_int q < (2::rat) powi bitlen q"
  proof -
    have "q < (2::int) ^ nat (bitlen q)" using bitlen_bounds[OF q] by simp
    then have "(of_int q :: rat) < of_int ((2::int) ^ nat (bitlen q))"
      by (simp only: of_int_less_iff)
    then show ?thesis using bq by (simp add: power_int_def)
  qed
  have qpos: "(0::rat) < of_int q" using q by simp
  have lo: "(2::rat) powi (d - 1) \<le> x"
  proof -
    have "(2::rat) powi (d - 1) = 2 powi (bitlen p - 1) / 2 powi bitlen q"
      unfolding d_def by (simp add: power_int_diff)
    also have "\<dots> \<le> of_int p / 2 powi bitlen q"
      using p1 by (simp add: divide_right_mono)
    also have "\<dots> \<le> of_int p / of_int q"
      using q2 qpos p by (simp add: frac_le)
    finally show ?thesis using x by simp
  qed
  have hi: "x < (2::rat) powi (d + 1)"
  proof -
    have "x = of_int p / of_int q" by (rule x)
    also have "\<dots> < 2 powi bitlen p / of_int q"
      using p2 qpos by (simp add: divide_strict_right_mono)
    also have "\<dots> \<le> 2 powi bitlen p / 2 powi (bitlen q - 1)"
      using q1 by (simp add: frac_le)
    also have "\<dots> = (2::rat) powi (d + 1)"
      unfolding d_def by (simp add: power_int_diff[symmetric] algebra_simps)
    finally show ?thesis .
  qed
  have il: "ilog2 x = (if 2 powi d \<le> x then d else d - 1)"
    unfolding ilog2_def d_def by (simp add: pq Let_def)
  show ?thesis
  proof (cases "2 powi d \<le> x")
    case True
    then show ?thesis using il hi by simp
  next
    case False
    then show ?thesis using il lo by simp
  qed
qed

lemma ilog2_mono:
  assumes "0 < x" "x \<le> y"
  shows "ilog2 x \<le> ilog2 y"
proof (rule ccontr)
  assume "\<not> ilog2 x \<le> ilog2 y"
  then have "ilog2 y + 1 \<le> ilog2 x" by simp
  then have "(2::rat) powi (ilog2 y + 1) \<le> 2 powi ilog2 x"
    by (rule power_int_increasing) simp
  moreover have "2 powi ilog2 x \<le> x" using ilog2_bounds[OF assms(1)] by simp
  moreover have "y < 2 powi (ilog2 y + 1)" using ilog2_bounds[of y] assms by simp
  ultimately show False using assms(2) by linarith
qed

lemma roundHalfEven_bounds: "\<lfloor>z\<rfloor> \<le> roundHalfEven z \<and> roundHalfEven z \<le> \<lfloor>z\<rfloor> + 1"
  by (simp add: roundHalfEven_def Let_def)

lemma roundHalfEven_of_int: "roundHalfEven (of_int n) = n"
  by (simp add: roundHalfEven_def Let_def)

lemma roundHalfEven_mono:
  assumes "x \<le> y"
  shows "roundHalfEven x \<le> roundHalfEven y"
proof (cases "\<lfloor>x\<rfloor> < \<lfloor>y\<rfloor>")
  case True
  have "roundHalfEven x \<le> \<lfloor>x\<rfloor> + 1" using roundHalfEven_bounds[of x] by simp
  also have "\<dots> \<le> \<lfloor>y\<rfloor>" using True by simp
  also have "\<dots> \<le> roundHalfEven y" using roundHalfEven_bounds[of y] by simp
  finally show ?thesis .
next
  case False
  moreover have "\<lfloor>x\<rfloor> \<le> \<lfloor>y\<rfloor>" using assms by (rule floor_mono)
  ultimately have eq: "\<lfloor>x\<rfloor> = \<lfloor>y\<rfloor>" by simp
  have "x - of_int \<lfloor>y\<rfloor> \<le> y - of_int \<lfloor>y\<rfloor>" using assms by simp
  then show ?thesis
    unfolding roundHalfEven_def Let_def eq by auto
qed

lemma roundHalfEven_nonneg: "0 \<le> z \<Longrightarrow> 0 \<le> roundHalfEven z"
  using roundHalfEven_mono[of 0 z] roundHalfEven_of_int[of 0] by simp

lemma quantum_mono: "0 < x \<Longrightarrow> x \<le> y \<Longrightarrow> quantum x \<le> quantum y"
  using ilog2_mono[of x y] by (simp add: quantum_def)

lemma pow2_pos: "(0::rat) < 2 powi n"
  by (simp add: zero_less_power_int)

lemma pow2_shift: "(of_int (2 ^ n) :: rat) * 2 powi q = 2 powi (q + int n)"
  by (simp add: power_int_add mult.commute)

lemma pow2_shift_div: "(2::rat) powi (q + int n) / 2 powi q = of_int (2 ^ n)"
  by (simp add: power_int_add)

lemma nearest_nonneg: "0 < x \<Longrightarrow> 0 \<le> nearest x"
  unfolding nearest_def
  by (intro mult_nonneg_nonneg) (simp_all add: roundHalfEven_nonneg zero_le_power_int)

lemma nearest_mono:
  assumes "0 < x" "x \<le> y"
  shows "nearest x \<le> nearest y"
proof -
  have y: "0 < y" using assms by simp
  have qm: "quantum x \<le> quantum y" using assms by (rule quantum_mono)
  show ?thesis
  proof (cases "quantum x = quantum y")
    case True
    have "x / 2 powi quantum y \<le> y / 2 powi quantum y"
      using assms(2) pow2_pos[of "quantum y"] by (simp add: divide_right_mono)
    then have "roundHalfEven (x / 2 powi quantum y) \<le> roundHalfEven (y / 2 powi quantum y)"
      by (rule roundHalfEven_mono)
    then have "(of_int (roundHalfEven (x / 2 powi quantum y)) :: rat)
               \<le> of_int (roundHalfEven (y / 2 powi quantum y))" by simp
    then show ?thesis
      unfolding nearest_def True using pow2_pos[of "quantum y"]
      by (simp add: mult_right_mono)
  next
    case False
    with qm have lt: "quantum x + 1 \<le> quantum y" by simp
    then have qy: "quantum y = ilog2 y - 52" unfolding quantum_def by (simp add: max_def split: if_splits)
    have qx: "ilog2 x - 52 \<le> quantum x" unfolding quantum_def by simp
    have "x < 2 powi (ilog2 x + 1)" using ilog2_bounds[OF assms(1)] by simp
    also have "\<dots> \<le> 2 powi (quantum x + 53)"
      by (rule power_int_increasing) (use qx in simp_all)
    finally have xb: "x < 2 powi (quantum x + 53)" .
    have "x / 2 powi quantum x \<le> 2 powi (quantum x + 53) / 2 powi quantum x"
      using xb pow2_pos[of "quantum x"] by (simp add: divide_right_mono)
    also have "\<dots> = 2 powi 53" by (simp add: power_int_add)
    also have "\<dots> = of_int (2 ^ 53)" by (simp add: power_int_def)
    finally have "roundHalfEven (x / 2 powi quantum x) \<le> roundHalfEven (of_int (2 ^ 53))"
      by (rule roundHalfEven_mono)
    then have rx: "roundHalfEven (x / 2 powi quantum x) \<le> 2 ^ 53"
      by (simp only: roundHalfEven_of_int)
    have "nearest x \<le> of_int (2 ^ 53) * 2 powi quantum x"
      unfolding nearest_def using rx pow2_pos[of "quantum x"]
      by (intro mult_right_mono) (simp_all only: of_int_le_iff less_imp_le)
    also have "\<dots> = 2 powi (quantum x + 53)" using pow2_shift[of 53 "quantum x"] by simp
    also have "\<dots> \<le> 2 powi (quantum y + 52)"
      by (rule power_int_increasing) (use lt in simp_all)
    finally have nx: "nearest x \<le> 2 powi (quantum y + 52)" .
    have "2 powi (quantum y + 52) \<le> y" using ilog2_bounds[OF y] qy by simp
    then have "2 powi (quantum y + 52) / 2 powi quantum y \<le> y / 2 powi quantum y"
      using pow2_pos[of "quantum y"] by (simp add: divide_right_mono)
    moreover have "2 powi (quantum y + 52) / 2 powi quantum y = (of_int (2 ^ 52) :: rat)"
      using pow2_shift_div[of "quantum y" 52] by simp
    ultimately have "roundHalfEven (of_int (2 ^ 52)) \<le> roundHalfEven (y / 2 powi quantum y)"
      by (intro roundHalfEven_mono) simp
    then have ry: "2 ^ 52 \<le> roundHalfEven (y / 2 powi quantum y)"
      by (simp only: roundHalfEven_of_int)
    have "(2::rat) powi (quantum y + 52) = of_int (2 ^ 52) * 2 powi quantum y"
      using pow2_shift[of 52 "quantum y"] by simp
    also have "\<dots> \<le> nearest y"
      unfolding nearest_def using ry pow2_pos[of "quantum y"]
      by (intro mult_right_mono) (simp_all only: of_int_le_iff less_imp_le)
    finally show ?thesis using nx by linarith
  qed
qed

lemma fl_not_NaN: "fl x \<noteq> NaN"
  by (simp add: fl_def Let_def)

lemma fl_mono:
  assumes "x \<le> y"
  shows "jle (fl x) (fl y)"
proof -
  consider "0 < x" | "y < 0" | "x \<le> 0" "0 \<le> y" using assms by linarith
  then show ?thesis
  proof cases
    case 1
    then have "nearest x \<le> nearest y" using assms by (rule nearest_mono)
    then show ?thesis using 1 assms by (auto simp: fl_def Let_def)
  next
    case 2
    then have "nearest (- y) \<le> nearest (- x)" using assms by (intro nearest_mono) simp_all
    then show ?thesis using 2 assms by (auto simp: fl_def Let_def)
  next
    case 3
    have "x < 0 \<Longrightarrow> 0 \<le> nearest (- x)" by (rule nearest_nonneg) simp
    moreover have "0 < y \<Longrightarrow> 0 \<le> nearest y" by (rule nearest_nonneg)
    ultimately show ?thesis using 3 by (auto simp: fl_def Let_def)
  qed
qed

text \<open>
  What the rounding returns: a multiple of the spacing with a significand of at most
  \<open>2 ^ 53\<close>, at most half a spacing away from the argument, and a value that rounding
  leaves as it is.
\<close>

lemma roundHalfEven_error: "\<bar>of_int (roundHalfEven z) - z\<bar> \<le> 1 / 2"
proof -
  define f where "f = \<lfloor>z\<rfloor>"
  have f1: "of_int f \<le> z" unfolding f_def by (rule of_int_floor_le)
  have f2: "z < of_int f + 1" unfolding f_def using floor_correct[of z] by simp
  show ?thesis
    unfolding roundHalfEven_def Let_def f_def[symmetric] using f1 f2
    by (auto simp: abs_if)
qed

lemma nearest_error:
  "\<bar>nearest x - x\<bar> \<le> 2 powi quantum x / 2"
proof -
  let ?u = "(2::rat) powi quantum x"
  have u: "0 < ?u" by (rule pow2_pos)
  have "nearest x - x = (of_int (roundHalfEven (x / ?u)) - x / ?u) * ?u"
    using u by (simp add: nearest_def algebra_simps)
  then have "\<bar>nearest x - x\<bar> = \<bar>of_int (roundHalfEven (x / ?u)) - x / ?u\<bar> * ?u"
    using u by (simp add: abs_mult)
  also have "\<dots> \<le> 1 / 2 * ?u"
    using roundHalfEven_error[of "x / ?u"] u by (intro mult_right_mono) simp_all
  finally show ?thesis by simp
qed

lemma significand_bounds:
  assumes "0 < x"
  shows "0 \<le> roundHalfEven (x / 2 powi quantum x) \<and> roundHalfEven (x / 2 powi quantum x) \<le> 2 ^ 53"
proof -
  have qx: "ilog2 x - 52 \<le> quantum x" unfolding quantum_def by simp
  have "x < 2 powi (ilog2 x + 1)" using ilog2_bounds[OF assms] by simp
  also have "\<dots> \<le> 2 powi (quantum x + 53)"
    by (rule power_int_increasing) (use qx in simp_all)
  finally have xb: "x < 2 powi (quantum x + 53)" .
  have "x / 2 powi quantum x \<le> 2 powi (quantum x + 53) / 2 powi quantum x"
    using xb pow2_pos[of "quantum x"] by (simp add: divide_right_mono)
  also have "\<dots> = of_int (2 ^ 53)" using pow2_shift_div[of "quantum x" 53] by simp
  finally have "roundHalfEven (x / 2 powi quantum x) \<le> roundHalfEven (of_int (2 ^ 53))"
    by (rule roundHalfEven_mono)
  then have "roundHalfEven (x / 2 powi quantum x) \<le> 2 ^ 53"
    by (simp only: roundHalfEven_of_int)
  moreover have "0 \<le> roundHalfEven (x / 2 powi quantum x)"
    using assms pow2_pos[of "quantum x"] by (intro roundHalfEven_nonneg) simp
  ultimately show ?thesis by simp
qed

lemma nearest_fixed:
  assumes "0 < x" "0 < nearest x"
  shows "nearest (nearest x) = nearest x"
proof -
  define q where "q = quantum x"
  define m where "m = roundHalfEven (x / 2 powi q)"
  define r where "r = nearest x"
  define q' where "q' = quantum r"
  have r: "r = of_int m * 2 powi q" by (simp add: r_def nearest_def m_def q_def)
  have rpos: "0 < r" using assms(2) by (simp add: r_def)
  have m53: "m \<le> 2 ^ 53" and m0: "0 \<le> m"
    using significand_bounds[OF assms(1)] by (simp_all add: m_def q_def)
  have qlo: "- 1074 \<le> q" by (simp add: q_def quantum_def)
  have "r \<le> of_int (2 ^ 53) * 2 powi q"
    unfolding r using m53 pow2_pos[of q]
    by (intro mult_right_mono) (simp_all only: of_int_le_iff less_imp_le)
  also have "\<dots> = 2 powi (q + 53)" using pow2_shift[of 53 q] by simp
  finally have rb: "r \<le> 2 powi (q + 53)" .
  have "2 powi ilog2 r \<le> r" using ilog2_bounds[OF rpos] by simp
  with rb have "(2::rat) powi ilog2 r \<le> 2 powi (q + 53)" by linarith
  then have il: "ilog2 r \<le> q + 53"
    by (rule_tac ccontr) (use power_int_strict_increasing[of "q + 53" "ilog2 r" "2::rat"] in simp)
  have q'le: "q' \<le> q + 1" using il qlo by (simp add: q'_def quantum_def)
  have int: "\<exists>k. r / 2 powi q' = of_int k"
  proof (cases "q' \<le> q")
    case True
    then have "(2::rat) powi q = 2 powi q' * 2 powi (q - q')"
      by (simp add: power_int_add[symmetric])
    moreover have "(2::rat) powi (q - q') = of_int (2 ^ nat (q - q'))"
      using True by (simp add: power_int_def)
    ultimately have "r / 2 powi q' = of_int (m * 2 ^ nat (q - q'))"
      unfolding r using pow2_pos[of q'] by simp
    then show ?thesis ..
  next
    case False
    with q'le have q': "q' = q + 1" by simp
    then have "ilog2 r - 52 = q + 1 \<or> - 1074 = q + 1"
      by (simp add: q'_def quantum_def max_def split: if_splits)
    with qlo have "ilog2 r = q + 53" by simp
    then have "2 powi (q + 53) \<le> r" using ilog2_bounds[OF rpos] by simp
    with rb have "r = 2 powi (q + 53)" by simp
    then have "r / 2 powi q' = 2 powi (q + 53) / 2 powi (q + 1)" by (simp add: q')
    also have "\<dots> = 2 powi 52" by (simp add: power_int_diff[symmetric])
    also have "\<dots> = of_int (2 ^ 52)" by (simp add: power_int_def)
    finally show ?thesis ..
  qed
  then obtain k where k: "r / 2 powi q' = of_int k" ..
  have "nearest r = of_int (roundHalfEven (r / 2 powi q')) * 2 powi q'"
    by (simp add: nearest_def q'_def)
  also have "\<dots> = r / 2 powi q' * 2 powi q'" by (simp only: k roundHalfEven_of_int)
  also have "\<dots> = r" using pow2_pos[of q'] by simp
  finally show ?thesis by (simp add: r_def)
qed

lemma fl_fixed: "fl x = Fin r \<Longrightarrow> fl r = Fin r"
proof -
  assume a: "fl x = Fin r"
  consider "x = 0" | "0 < x" | "x < 0" by linarith
  then show ?thesis
  proof cases
    case 1
    then show ?thesis using a by (simp add: fl_def)
  next
    case 2
    then have r: "r = nearest x" "r < 2 ^ 1024"
      using a by (auto simp: fl_def Let_def split: if_splits)
    have "0 \<le> r" using nearest_nonneg[OF 2] r by simp
    then consider "r = 0" | "0 < r" by linarith
    then show ?thesis
    proof cases
      case 1
      then show ?thesis by (simp add: fl_def)
    next
      case 2
      then have "nearest r = r" using nearest_fixed[OF \<open>0 < x\<close>] r by simp
      then show ?thesis using 2 r by (simp add: fl_def)
    qed
  next
    case 3
    then have r: "- r = nearest (- x)" "- r < 2 ^ 1024"
      using a by (auto simp: fl_def Let_def split: if_splits)
    have "0 \<le> - r" using nearest_nonneg[of "- x"] 3 r by simp
    then consider "r = 0" | "0 < - r" by linarith
    then show ?thesis
    proof cases
      case 1
      then show ?thesis by (simp add: fl_def)
    next
      case 2
      then have "nearest (- r) = - r" using nearest_fixed[of "- x"] 3 r by simp
      then show ?thesis using 2 r by (simp add: fl_def)
    qed
  qed
qed

section \<open>Comparisons, sums and products\<close>

lemma jle_NInf: "y \<noteq> NaN \<Longrightarrow> jle NInf y"
  by (cases y) simp_all

lemma jle_PInf: "x \<noteq> NaN \<Longrightarrow> jle x PInf"
  by (cases x) simp_all

lemma jle_refl: "x \<noteq> NaN \<Longrightarrow> jle x x"
  by (cases x) simp_all

lemma jle_trans: "jle a b \<Longrightarrow> jle b c \<Longrightarrow> jle a c"
  by (cases a; cases b; cases c) simp_all

lemma jle_not_NaN: "jle a b \<Longrightarrow> a \<noteq> NaN \<and> b \<noteq> NaN"
  by (cases a; cases b) simp_all

lemma jlt_iff_not_jle: "a \<noteq> NaN \<Longrightarrow> b \<noteq> NaN \<Longrightarrow> jlt a b \<longleftrightarrow> \<not> jle b a"
  by (cases a; cases b) auto

lemma nle_refl: "nle a a"
  by (cases a) (simp_all add: nle_def)

lemma nle_trans: "nle a b \<Longrightarrow> nle b c \<Longrightarrow> nle a c"
  by (cases a; cases b; cases c) (simp_all add: nle_def)

lemma jle_imp_nle: "jle a b \<Longrightarrow> nle a b"
  by (simp add: nle_def)

lemma nle_not_jlt: "nle a b \<Longrightarrow> \<not> jlt b a"
  by (cases a; cases b) (simp_all add: nle_def)

lemma jadd_commute: "jadd a b = jadd b a"
  by (cases a; cases b) (simp_all add: add.commute)

lemma jmul_commute: "jmul a b = jmul b a"
  by (cases a; cases b) (simp_all add: mult.commute)

lemma fl_cases: "fl x = NInf \<or> fl x = PInf \<or> (\<exists>r. fl x = Fin r)"
  by (simp add: fl_def Let_def)

lemma nle_fl: "x \<le> y \<Longrightarrow> nle (fl x) (fl y)"
  by (simp add: nle_def fl_mono)

lemma jadd_mono_left:
  assumes "nle a a'"
  shows "nle (jadd a c) (jadd a' c)"
proof (cases c)
  case NaN
  then show ?thesis by (cases a; cases a') (simp_all add: nle_def)
next
  case NInf
  then show ?thesis using assms by (cases a; cases a') (simp_all add: nle_def)
next
  case PInf
  then show ?thesis using assms by (cases a; cases a') (simp_all add: nle_def)
next
  case (Fin z)
  show ?thesis
  proof (cases a')
    case NaN
    then show ?thesis by (cases a) (simp_all add: nle_def Fin)
  next
    case PInf
    then show ?thesis by (cases a) (simp_all add: nle_def Fin)
  next
    case NInf
    then show ?thesis using assms by (cases a) (simp_all add: nle_def Fin)
  next
    case a': (Fin y)
    show ?thesis
    proof (cases a)
      case NaN
      then show ?thesis using assms a' by (simp add: nle_def)
    next
      case PInf
      then show ?thesis using assms a' by (simp add: nle_def)
    next
      case NInf
      then show ?thesis using a' Fin by (simp add: nle_def jle_NInf fl_not_NaN)
    next
      case a: (Fin x)
      then have "x \<le> y" using assms a' by (simp add: nle_def)
      then have "x + z \<le> y + z" by simp
      then show ?thesis using a a' Fin by (simp add: nle_fl)
    qed
  qed
qed

lemma jadd_mono: "nle a a' \<Longrightarrow> nle b b' \<Longrightarrow> nle (jadd a b) (jadd a' b')"
proof -
  assume 1: "nle a a'" and 2: "nle b b'"
  have "nle (jadd a b) (jadd a' b)" using 1 by (rule jadd_mono_left)
  moreover have "nle (jadd b a') (jadd b' a')" using 2 by (rule jadd_mono_left)
  then have "nle (jadd a' b) (jadd a' b')" by (simp only: jadd_commute[of a'])
  ultimately show ?thesis by (rule nle_trans)
qed

lemma jmul_mono_pos:
  assumes "nle a a'" "0 < c"
  shows "nle (jmul a (Fin c)) (jmul a' (Fin c))"
proof (cases a')
  case NaN
  then show ?thesis by (cases a) (simp_all add: nle_def)
next
  case PInf
  then show ?thesis using assms(2) by (cases a) (simp_all add: nle_def)
next
  case NInf
  then show ?thesis using assms by (cases a) (simp_all add: nle_def)
next
  case a': (Fin y)
  show ?thesis
  proof (cases a)
    case NaN
    then show ?thesis using assms a' by (simp add: nle_def)
  next
    case PInf
    then show ?thesis using assms a' by (simp add: nle_def)
  next
    case NInf
    then show ?thesis using a' assms(2) by (simp add: nle_def jle_NInf fl_not_NaN)
  next
    case a: (Fin x)
    then have "x \<le> y" using assms a' by (simp add: nle_def)
    then have "x * c \<le> y * c" using assms(2) by (simp add: mult_right_mono)
    then show ?thesis using a a' by (simp add: nle_fl)
  qed
qed

section \<open>Evaluating the rounding\<close>

text \<open>
  A rounding at a given rational is evaluated from its exponent \<open>e\<close> and its integer
  significand \<open>m\<close>: once these are named, what is left to check is arithmetic on numerals.
\<close>

lemma ilog2_unique:
  assumes "0 < x" "2 powi e \<le> x" "x < 2 powi (e + 1)"
  shows "ilog2 x = e"
proof (rule antisym)
  show "ilog2 x \<le> e"
  proof (rule ccontr)
    assume "\<not> ilog2 x \<le> e"
    then have "e + 1 \<le> ilog2 x" by simp
    then have "(2::rat) powi (e + 1) \<le> 2 powi ilog2 x" by (rule power_int_increasing) simp
    then show False using ilog2_bounds[OF assms(1)] assms(3) by linarith
  qed
  show "e \<le> ilog2 x"
  proof (rule ccontr)
    assume "\<not> e \<le> ilog2 x"
    then have "ilog2 x + 1 \<le> e" by simp
    then have "(2::rat) powi (ilog2 x + 1) \<le> 2 powi e" by (rule power_int_increasing) simp
    then show False using ilog2_bounds[OF assms(1)] assms(2) by linarith
  qed
qed

lemma roundHalfEven_cert:
  assumes "\<bar>z - of_int m\<bar> < 1 / 2 \<or> (\<bar>z - of_int m\<bar> = 1 / 2 \<and> even m)"
  shows "roundHalfEven z = m"
proof -
  define f where "f = \<lfloor>z\<rfloor>"
  have f1: "of_int f \<le> z" unfolding f_def by (rule of_int_floor_le)
  have f2: "z < of_int f + 1" unfolding f_def using floor_correct[of z] by simp
  have close: "\<bar>z - of_int m\<bar> \<le> 1 / 2" using assms by auto
  have "(of_int f :: rat) < of_int (m + 1)" using f1 close by (simp add: abs_if split: if_splits)
  then have lo: "f \<le> m" by (simp only: of_int_less_iff)
  have "(of_int m :: rat) < of_int (f + 2)" using f2 close by (simp add: abs_if split: if_splits)
  then have hi: "m \<le> f + 1" by (simp only: of_int_less_iff)
  from lo hi consider "m = f" | "m = f + 1" by linarith
  then show ?thesis
  proof cases
    case 1
    then show ?thesis using assms f1
      unfolding roundHalfEven_def Let_def f_def[symmetric]
      by (auto simp: abs_if split: if_splits)
  next
    case 2
    then show ?thesis using assms f2
      unfolding roundHalfEven_def Let_def f_def[symmetric]
      by (auto simp: abs_if split: if_splits)
  qed
qed

lemma fl_pos_cert:
  assumes "0 < x" "2 powi e \<le> x" "x < 2 powi (e + 1)"
      and "max (e - 52) (- 1074) = q"
      and "\<bar>x / 2 powi q - of_int m\<bar> < 1 / 2 \<or> (\<bar>x / 2 powi q - of_int m\<bar> = 1 / 2 \<and> even m)"
      and "of_int m * 2 powi q = r" "r < 2 ^ 1024"
  shows "fl x = Fin r"
proof -
  have "ilog2 x = e" using assms(1-3) by (rule ilog2_unique)
  then have "quantum x = q" using assms(4) by (simp add: quantum_def)
  moreover have "roundHalfEven (x / 2 powi q) = m" using assms(5) by (rule roundHalfEven_cert)
  ultimately have "nearest x = r" using assms(6) by (simp add: nearest_def)
  then show ?thesis using assms(1,7) by (simp add: fl_def)
qed

lemma fl_neg_cert:
  assumes "0 < - x" "2 powi e \<le> - x" "- x < 2 powi (e + 1)"
      and "max (e - 52) (- 1074) = q"
      and "\<bar>- x / 2 powi q - of_int m\<bar> < 1 / 2 \<or> (\<bar>- x / 2 powi q - of_int m\<bar> = 1 / 2 \<and> even m)"
      and "- (of_int m * 2 powi q) = r" "- r < 2 ^ 1024"
  shows "fl x = Fin r"
proof -
  have "ilog2 (- x) = e" using assms(1-3) by (rule ilog2_unique)
  then have "quantum (- x) = q" using assms(4) by (simp add: quantum_def)
  moreover have "roundHalfEven (- x / 2 powi q) = m" using assms(5) by (rule roundHalfEven_cert)
  ultimately have "nearest (- x) = - r" using assms(6) by (simp add: nearest_def)
  then show ?thesis using assms(1,7) by (simp add: fl_def)
qed

lemma lit_0: "lit 0 = Fin 0"
  by (simp add: lit_def fl_def)

lemma lit_1: "lit 1 = Fin 1"
  unfolding lit_def
  by (rule fl_pos_cert[where e = 0 and q = "- 52" and m = 4503599627370496]) simp_all

lemma lit_3: "lit 3 = Fin 3"
  unfolding lit_def
  by (rule fl_pos_cert[where e = 1 and q = "- 51" and m = 6755399441055744]) simp_all

lemma lit_4: "lit 4 = Fin 4"
  unfolding lit_def
  by (rule fl_pos_cert[where e = 2 and q = "- 50" and m = 4503599627370496]) simp_all

lemma lit_5: "lit 5 = Fin 5"
  unfolding lit_def
  by (rule fl_pos_cert[where e = 2 and q = "- 50" and m = 5629499534213120]) simp_all

lemma lit_6: "lit 6 = Fin 6"
  unfolding lit_def
  by (rule fl_pos_cert[where e = 2 and q = "- 50" and m = 6755399441055744]) simp_all

lemma lit_7: "lit 7 = Fin 7"
  unfolding lit_def
  by (rule fl_pos_cert[where e = 2 and q = "- 50" and m = 7881299347898368]) simp_all

lemma lit_10: "lit 10 = Fin 10"
  unfolding lit_def
  by (rule fl_pos_cert[where e = 3 and q = "- 49" and m = 5629499534213120]) simp_all

lemma lit_100: "lit 100 = Fin 100"
  unfolding lit_def
  by (rule fl_pos_cert[where e = 6 and q = "- 46" and m = 7036874417766400]) simp_all

lemma lit_m5: "lit (- 5) = Fin (- 5)"
  unfolding lit_def
  by (rule fl_neg_cert[where e = 2 and q = "- 50" and m = 5629499534213120]) simp_all

lemma weather_weight: "weather weights = Fin (5404319552844595 / 18014398509481984)"
  unfolding weights_def weightLiterals_def weightsOf.simps lit_def
  by (rule fl_pos_cert[where e = "- 2" and q = "- 54" and m = 5404319552844595]) simp_all

lemma avalanche_weight: "avalanche weights = Fin (3152519739159347 / 9007199254740992)"
  unfolding weights_def weightLiterals_def weightsOf.simps lit_def
  by (rule fl_pos_cert[where e = "- 2" and q = "- 54" and m = 6305039478318694]) simp_all

lemma terrain_weight: "terrain weights = Fin (3602879701896397 / 18014398509481984)"
  unfolding weights_def weightLiterals_def weightsOf.simps lit_def
  by (rule fl_pos_cert[where e = "- 3" and q = "- 55" and m = 7205759403792794]) simp_all

lemma group_weight: "group' weights = Fin (5404319552844595 / 36028797018963968)"
  unfolding weights_def weightLiterals_def weightsOf.simps lit_def
  by (rule fl_pos_cert[where e = "- 3" and q = "- 55" and m = 5404319552844595]) simp_all

lemma jmul_eval_1: "jmul (Fin 10) (Fin (5404319552844595 / 18014398509481984)) = Fin 3"
  unfolding jmul.simps
  by (rule fl_pos_cert[where e = 1 and q = "- 51" and m = 6755399441055744]) simp_all

lemma jmul_eval_2: "jmul (Fin 10) (Fin (3152519739159347 / 9007199254740992)) = Fin (7 / 2)"
  unfolding jmul.simps
  by (rule fl_pos_cert[where e = 1 and q = "- 51" and m = 7881299347898368]) simp_all

lemma jmul_eval_3: "jmul (Fin 10) (Fin (3602879701896397 / 18014398509481984)) = Fin 2"
  unfolding jmul.simps
  by (rule fl_pos_cert[where e = 1 and q = "- 51" and m = 4503599627370496]) simp_all

lemma jmul_eval_4: "jmul (Fin 10) (Fin (5404319552844595 / 36028797018963968)) = Fin (3 / 2)"
  unfolding jmul.simps
  by (rule fl_pos_cert[where e = 0 and q = "- 52" and m = 6755399441055744]) simp_all

lemma jadd_eval_5: "jadd (Fin 3) (Fin (7 / 2)) = Fin (13 / 2)"
  unfolding jadd.simps
  by (rule fl_pos_cert[where e = 2 and q = "- 50" and m = 7318349394477056]) simp_all

lemma jadd_eval_6: "jadd (Fin (13 / 2)) (Fin 2) = Fin (17 / 2)"
  unfolding jadd.simps
  by (rule fl_pos_cert[where e = 3 and q = "- 49" and m = 4785074604081152]) simp_all

lemma jadd_eval_7: "jadd (Fin (17 / 2)) (Fin (3 / 2)) = Fin 10"
  unfolding jadd.simps
  by (rule fl_pos_cert[where e = 3 and q = "- 49" and m = 5629499534213120]) simp_all

lemma jdiv_eval_8: "jdiv (Fin 10) (Fin 10) = Fin 1"
  by (simp only: jdiv.simps) (simp, rule fl_pos_cert[where e = 0 and q = "- 52" and m = 4503599627370496], simp_all)

lemma jmul_eval_9: "jmul (Fin 1) (Fin 100) = Fin 100"
  unfolding jmul.simps
  by (rule fl_pos_cert[where e = 6 and q = "- 46" and m = 7036874417766400]) simp_all

lemma jmul_eval_10: "jmul (Fin 0) (Fin (5404319552844595 / 18014398509481984)) = Fin 0"
  by (simp add: fl_def)

lemma jmul_eval_11: "jmul (Fin 0) (Fin (3152519739159347 / 9007199254740992)) = Fin 0"
  by (simp add: fl_def)

lemma jmul_eval_12: "jmul (Fin 0) (Fin (3602879701896397 / 18014398509481984)) = Fin 0"
  by (simp add: fl_def)

lemma jmul_eval_13: "jmul (Fin 0) (Fin (5404319552844595 / 36028797018963968)) = Fin 0"
  by (simp add: fl_def)

lemma jadd_eval_14: "jadd (Fin 0) (Fin 0) = Fin 0"
  by (simp add: fl_def)

lemma jdiv_eval_15: "jdiv (Fin 0) (Fin 10) = Fin 0"
  by (simp add: fl_def)

lemma jmul_eval_16: "jmul (Fin 0) (Fin 100) = Fin 0"
  by (simp add: fl_def)

lemma jmul_eval_17: "jmul (Fin 6) (Fin (5404319552844595 / 18014398509481984)) = Fin (2026619832316723 / 1125899906842624)"
  unfolding jmul.simps
  by (rule fl_pos_cert[where e = 0 and q = "- 52" and m = 8106479329266892]) simp_all

lemma jmul_eval_18: "jmul (Fin 7) (Fin (3152519739159347 / 9007199254740992)) = Fin (5516909543528857 / 2251799813685248)"
  unfolding jmul.simps
  by (rule fl_pos_cert[where e = 1 and q = "- 51" and m = 5516909543528857]) simp_all

lemma jmul_eval_19: "jmul (Fin 5) (Fin (3602879701896397 / 18014398509481984)) = Fin 1"
  unfolding jmul.simps
  by (rule fl_pos_cert[where e = 0 and q = "- 52" and m = 4503599627370496]) simp_all

lemma jmul_eval_20: "jmul (Fin 4) (Fin (5404319552844595 / 36028797018963968)) = Fin (5404319552844595 / 9007199254740992)"
  unfolding jmul.simps
  by (rule fl_pos_cert[where e = "- 1" and q = "- 53" and m = 5404319552844595]) simp_all

lemma jadd_eval_21: "jadd (Fin (2026619832316723 / 1125899906842624)) (Fin (5516909543528857 / 2251799813685248)) = Fin (17 / 4)"
  unfolding jadd.simps
  by (rule fl_pos_cert[where e = 2 and q = "- 50" and m = 4785074604081152]) simp_all

lemma jadd_eval_22: "jadd (Fin (17 / 4)) (Fin 1) = Fin (21 / 4)"
  unfolding jadd.simps
  by (rule fl_pos_cert[where e = 2 and q = "- 50" and m = 5910974510923776]) simp_all

lemma jadd_eval_23: "jadd (Fin (21 / 4)) (Fin (5404319552844595 / 9007199254740992)) = Fin (3293257227514675 / 562949953421312)"
  unfolding jadd.simps
  by (rule fl_pos_cert[where e = 2 and q = "- 50" and m = 6586514455029350]) simp_all

lemma jdiv_eval_24: "jdiv (Fin (3293257227514675 / 562949953421312)) (Fin 10) = Fin (658651445502935 / 1125899906842624)"
  by (simp only: jdiv.simps) (simp, rule fl_pos_cert[where e = "- 1" and q = "- 53" and m = 5269211564023480], simp_all)

lemma jmul_eval_25: "jmul (Fin (658651445502935 / 1125899906842624)) (Fin 100) = Fin (117 / 2)"
  unfolding jmul.simps
  by (rule fl_pos_cert[where e = 5 and q = "- 47" and m = 8233143068786688]) simp_all

lemma jmul_eval_26: "jmul (Fin 3) (Fin (5404319552844595 / 18014398509481984)) = Fin (2026619832316723 / 2251799813685248)"
  unfolding jmul.simps
  by (rule fl_pos_cert[where e = "- 1" and q = "- 53" and m = 8106479329266892]) simp_all

lemma jmul_eval_27: "jmul (Fin 3) (Fin (3152519739159347 / 9007199254740992)) = Fin (1182194902184755 / 1125899906842624)"
  unfolding jmul.simps
  by (rule fl_pos_cert[where e = 0 and q = "- 52" and m = 4728779608739020]) simp_all

lemma jmul_eval_28: "jmul (Fin 3) (Fin (3602879701896397 / 18014398509481984)) = Fin (1351079888211149 / 2251799813685248)"
  unfolding jmul.simps
  by (rule fl_pos_cert[where e = "- 1" and q = "- 53" and m = 5404319552844596]) simp_all

lemma jmul_eval_29: "jmul (Fin 3) (Fin (5404319552844595 / 36028797018963968)) = Fin (2026619832316723 / 4503599627370496)"
  unfolding jmul.simps
  by (rule fl_pos_cert[where e = "- 2" and q = "- 54" and m = 8106479329266892]) simp_all

lemma jadd_eval_30: "jadd (Fin (2026619832316723 / 2251799813685248)) (Fin (1182194902184755 / 1125899906842624)) = Fin (4391009636686233 / 2251799813685248)"
  unfolding jadd.simps
  by (rule fl_pos_cert[where e = 0 and q = "- 52" and m = 8782019273372466]) simp_all

lemma jadd_eval_31: "jadd (Fin (4391009636686233 / 2251799813685248)) (Fin (1351079888211149 / 2251799813685248)) = Fin (2871044762448691 / 1125899906842624)"
  unfolding jadd.simps
  by (rule fl_pos_cert[where e = 1 and q = "- 51" and m = 5742089524897382]) simp_all

lemma jadd_eval_32: "jadd (Fin (2871044762448691 / 1125899906842624)) (Fin (2026619832316723 / 4503599627370496)) = Fin 3"
  unfolding jadd.simps
  by (rule fl_pos_cert[where e = 1 and q = "- 51" and m = 6755399441055744]) simp_all

lemma jmul_eval_33: "jmul (Fin 5) (Fin (5404319552844595 / 18014398509481984)) = Fin (3 / 2)"
  unfolding jmul.simps
  by (rule fl_pos_cert[where e = 0 and q = "- 52" and m = 6755399441055744]) simp_all

lemma jmul_eval_34: "jmul (Fin 5) (Fin (3152519739159347 / 9007199254740992)) = Fin (7 / 4)"
  unfolding jmul.simps
  by (rule fl_pos_cert[where e = 0 and q = "- 52" and m = 7881299347898368]) simp_all

lemma jmul_eval_35: "jmul (Fin 5) (Fin (5404319552844595 / 36028797018963968)) = Fin (3 / 4)"
  unfolding jmul.simps
  by (rule fl_pos_cert[where e = "- 1" and q = "- 53" and m = 6755399441055744]) simp_all

lemma jadd_eval_36: "jadd (Fin (3 / 2)) (Fin (7 / 4)) = Fin (13 / 4)"
  unfolding jadd.simps
  by (rule fl_pos_cert[where e = 1 and q = "- 51" and m = 7318349394477056]) simp_all

lemma jadd_eval_37: "jadd (Fin (13 / 4)) (Fin 1) = Fin (17 / 4)"
  unfolding jadd.simps
  by (rule fl_pos_cert[where e = 2 and q = "- 50" and m = 4785074604081152]) simp_all

lemma jadd_eval_38: "jadd (Fin (17 / 4)) (Fin (3 / 4)) = Fin 5"
  unfolding jadd.simps
  by (rule fl_pos_cert[where e = 2 and q = "- 50" and m = 5629499534213120]) simp_all

lemma jmul_eval_39: "jmul (Fin 7) (Fin (5404319552844595 / 18014398509481984)) = Fin (4728779608739021 / 2251799813685248)"
  unfolding jmul.simps
  by (rule fl_pos_cert[where e = 1 and q = "- 51" and m = 4728779608739021]) simp_all

lemma jmul_eval_40: "jmul (Fin 7) (Fin (3602879701896397 / 18014398509481984)) = Fin (6305039478318695 / 4503599627370496)"
  unfolding jmul.simps
  by (rule fl_pos_cert[where e = 0 and q = "- 52" and m = 6305039478318695]) simp_all

lemma jmul_eval_41: "jmul (Fin 7) (Fin (5404319552844595 / 36028797018963968)) = Fin (4728779608739021 / 4503599627370496)"
  unfolding jmul.simps
  by (rule fl_pos_cert[where e = 0 and q = "- 52" and m = 4728779608739021]) simp_all

lemma jadd_eval_42: "jadd (Fin (4728779608739021 / 2251799813685248)) (Fin (5516909543528857 / 2251799813685248)) = Fin (5122844576133939 / 1125899906842624)"
  unfolding jadd.simps
  by (rule fl_pos_cert[where e = 2 and q = "- 50" and m = 5122844576133939]) simp_all

lemma jadd_eval_43: "jadd (Fin (5122844576133939 / 1125899906842624)) (Fin (6305039478318695 / 4503599627370496)) = Fin (6699104445713613 / 1125899906842624)"
  unfolding jadd.simps
  by (rule fl_pos_cert[where e = 2 and q = "- 50" and m = 6699104445713613]) simp_all

lemma jadd_eval_44: "jadd (Fin (6699104445713613 / 1125899906842624)) (Fin (4728779608739021 / 4503599627370496)) = Fin 7"
  unfolding jadd.simps
  by (rule fl_pos_cert[where e = 2 and q = "- 50" and m = 7881299347898368]) simp_all

lemma jmul_eval_45: "jmul (Fin 20) (Fin (5404319552844595 / 18014398509481984)) = Fin 6"
  unfolding jmul.simps
  by (rule fl_pos_cert[where e = 2 and q = "- 50" and m = 6755399441055744]) simp_all

lemma jmul_eval_46: "jmul (Fin 20) (Fin (3152519739159347 / 9007199254740992)) = Fin 7"
  unfolding jmul.simps
  by (rule fl_pos_cert[where e = 2 and q = "- 50" and m = 7881299347898368]) simp_all

lemma jmul_eval_47: "jmul (Fin 20) (Fin (3602879701896397 / 18014398509481984)) = Fin 4"
  unfolding jmul.simps
  by (rule fl_pos_cert[where e = 2 and q = "- 50" and m = 4503599627370496]) simp_all

lemma jmul_eval_48: "jmul (Fin 20) (Fin (5404319552844595 / 36028797018963968)) = Fin 3"
  unfolding jmul.simps
  by (rule fl_pos_cert[where e = 1 and q = "- 51" and m = 6755399441055744]) simp_all

lemma jadd_eval_49: "jadd (Fin 6) (Fin 7) = Fin 13"
  unfolding jadd.simps
  by (rule fl_pos_cert[where e = 3 and q = "- 49" and m = 7318349394477056]) simp_all

lemma jadd_eval_50: "jadd (Fin 13) (Fin 4) = Fin 17"
  unfolding jadd.simps
  by (rule fl_pos_cert[where e = 4 and q = "- 48" and m = 4785074604081152]) simp_all

lemma jadd_eval_51: "jadd (Fin 17) (Fin 3) = Fin 20"
  unfolding jadd.simps
  by (rule fl_pos_cert[where e = 4 and q = "- 48" and m = 5629499534213120]) simp_all

lemma jmul_eval_52: "jmul (Fin (- 5)) (Fin (5404319552844595 / 18014398509481984)) = Fin (- (3 / 2))"
  unfolding jmul.simps
  by (rule fl_neg_cert[where e = 0 and q = "- 52" and m = 6755399441055744]) simp_all

lemma jmul_eval_53: "jmul (Fin (- 5)) (Fin (3152519739159347 / 9007199254740992)) = Fin (- (7 / 4))"
  unfolding jmul.simps
  by (rule fl_neg_cert[where e = 0 and q = "- 52" and m = 7881299347898368]) simp_all

lemma jmul_eval_54: "jmul (Fin (- 5)) (Fin (3602879701896397 / 18014398509481984)) = Fin (- 1)"
  unfolding jmul.simps
  by (rule fl_neg_cert[where e = 0 and q = "- 52" and m = 4503599627370496]) simp_all

lemma jmul_eval_55: "jmul (Fin (- 5)) (Fin (5404319552844595 / 36028797018963968)) = Fin (- (3 / 4))"
  unfolding jmul.simps
  by (rule fl_neg_cert[where e = "- 1" and q = "- 53" and m = 6755399441055744]) simp_all

lemma jadd_eval_56: "jadd (Fin (- (3 / 2))) (Fin (- (7 / 4))) = Fin (- (13 / 4))"
  unfolding jadd.simps
  by (rule fl_neg_cert[where e = 1 and q = "- 51" and m = 7318349394477056]) simp_all

lemma jadd_eval_57: "jadd (Fin (- (13 / 4))) (Fin (- 1)) = Fin (- (17 / 4))"
  unfolding jadd.simps
  by (rule fl_neg_cert[where e = 2 and q = "- 50" and m = 4785074604081152]) simp_all

lemma jadd_eval_58: "jadd (Fin (- (17 / 4))) (Fin (- (3 / 4))) = Fin (- 5)"
  unfolding jadd.simps
  by (rule fl_neg_cert[where e = 2 and q = "- 50" and m = 5629499534213120]) simp_all

lemma jmul_eval_59: "jmul (Fin 1) (Fin (3152519739159347 / 9007199254740992)) = Fin (3152519739159347 / 9007199254740992)"
  unfolding jmul.simps
  by (rule fl_pos_cert[where e = "- 2" and q = "- 54" and m = 6305039478318694]) simp_all

lemma jadd_eval_60: "jadd (Fin 0) (Fin (3152519739159347 / 9007199254740992)) = Fin (3152519739159347 / 9007199254740992)"
  unfolding jadd.simps
  by (rule fl_pos_cert[where e = "- 2" and q = "- 54" and m = 6305039478318694]) simp_all

lemma jadd_eval_61: "jadd (Fin (3152519739159347 / 9007199254740992)) (Fin 0) = Fin (3152519739159347 / 9007199254740992)"
  unfolding jadd.simps
  by (rule fl_pos_cert[where e = "- 2" and q = "- 54" and m = 6305039478318694]) simp_all

lemma jdiv_eval_62: "jdiv (Fin (3152519739159347 / 9007199254740992)) (Fin 10) = Fin (5044031582654955 / 144115188075855872)"
  by (simp only: jdiv.simps) (simp, rule fl_pos_cert[where e = "- 5" and q = "- 57" and m = 5044031582654955], simp_all)

lemma jmul_eval_63: "jmul (Fin (5044031582654955 / 144115188075855872)) (Fin 100) = Fin (7881299347898367 / 2251799813685248)"
  unfolding jmul.simps
  by (rule fl_pos_cert[where e = 1 and q = "- 51" and m = 7881299347898367]) simp_all

lemma jmul_eval_64: "jmul (Fin 1) (Fin (5404319552844595 / 18014398509481984)) = Fin (5404319552844595 / 18014398509481984)"
  unfolding jmul.simps
  by (rule fl_pos_cert[where e = "- 2" and q = "- 54" and m = 5404319552844595]) simp_all

lemma jmul_eval_65: "jmul (Fin 1) (Fin (3602879701896397 / 18014398509481984)) = Fin (3602879701896397 / 18014398509481984)"
  unfolding jmul.simps
  by (rule fl_pos_cert[where e = "- 3" and q = "- 55" and m = 7205759403792794]) simp_all

lemma jmul_eval_66: "jmul (Fin 1) (Fin (5404319552844595 / 36028797018963968)) = Fin (5404319552844595 / 36028797018963968)"
  unfolding jmul.simps
  by (rule fl_pos_cert[where e = "- 3" and q = "- 55" and m = 5404319552844595]) simp_all

lemma jadd_eval_67: "jadd (Fin (5404319552844595 / 18014398509481984)) (Fin (3152519739159347 / 9007199254740992)) = Fin (1463669878895411 / 2251799813685248)"
  unfolding jadd.simps
  by (rule fl_pos_cert[where e = "- 1" and q = "- 53" and m = 5854679515581644]) simp_all

lemma jadd_eval_68: "jadd (Fin (1463669878895411 / 2251799813685248)) (Fin (3602879701896397 / 18014398509481984)) = Fin (3828059683264921 / 4503599627370496)"
  unfolding jadd.simps
  by (rule fl_pos_cert[where e = "- 1" and q = "- 53" and m = 7656119366529842]) simp_all

lemma jadd_eval_69: "jadd (Fin (3828059683264921 / 4503599627370496)) (Fin (5404319552844595 / 36028797018963968)) = Fin (9007199254740991 / 9007199254740992)"
  unfolding jadd.simps
  by (rule fl_pos_cert[where e = "- 1" and q = "- 53" and m = 9007199254740991]) simp_all

lemma jmul_eval_70: "jmul (Fin 4) (Fin (5404319552844595 / 18014398509481984)) = Fin (5404319552844595 / 4503599627370496)"
  unfolding jmul.simps
  by (rule fl_pos_cert[where e = 0 and q = "- 52" and m = 5404319552844595]) simp_all

lemma jmul_eval_71: "jmul (Fin 8) (Fin (3602879701896397 / 18014398509481984)) = Fin (3602879701896397 / 2251799813685248)"
  unfolding jmul.simps
  by (rule fl_pos_cert[where e = 0 and q = "- 52" and m = 7205759403792794]) simp_all

lemma jadd_eval_72: "jadd (Fin (5404319552844595 / 4503599627370496)) (Fin (7 / 4)) = Fin (3321404725185741 / 1125899906842624)"
  unfolding jadd.simps
  by (rule fl_pos_cert[where e = 1 and q = "- 51" and m = 6642809450371482]) simp_all

lemma jadd_eval_73: "jadd (Fin (3321404725185741 / 1125899906842624)) (Fin (3602879701896397 / 2251799813685248)) = Fin (1280711144033485 / 281474976710656)"
  unfolding jadd.simps
  by (rule fl_pos_cert[where e = 2 and q = "- 50" and m = 5122844576133940]) simp_all

lemma jadd_eval_74: "jadd (Fin (1280711144033485 / 281474976710656)) (Fin (2026619832316723 / 4503599627370496)) = Fin (5629499534213121 / 1125899906842624)"
  unfolding jadd.simps
  by (rule fl_pos_cert[where e = 2 and q = "- 50" and m = 5629499534213121]) simp_all

lemma jdiv_eval_75: "jdiv (Fin (5629499534213121 / 1125899906842624)) (Fin 10) = Fin (4503599627370497 / 9007199254740992)"
  by (simp only: jdiv.simps) (simp, rule fl_pos_cert[where e = "- 1" and q = "- 53" and m = 4503599627370497], simp_all)

lemma jmul_eval_76: "jmul (Fin (4503599627370497 / 9007199254740992)) (Fin 100) = Fin (3518437208883201 / 70368744177664)"
  unfolding jmul.simps
  by (rule fl_pos_cert[where e = 5 and q = "- 47" and m = 7036874417766402]) simp_all

lemma floor_rat_numeral: "\<lfloor>(numeral a :: rat) / numeral b\<rfloor> = numeral a div numeral b"
  using floor_divide_of_int_eq[of "numeral a" "numeral b", where ?'a = rat] by simp

lemma floor_rat_neg_numeral: "\<lfloor>- ((numeral a :: rat) / numeral b)\<rfloor> = - numeral a div numeral b"
  using floor_divide_of_int_eq[of "- numeral a" "numeral b", where ?'a = rat] by simp

lemma floor_rat_one_numeral: "\<lfloor>(1 :: rat) / numeral b\<rfloor> = 1 div numeral b"
  using floor_divide_of_int_eq[of 1 "numeral b", where ?'a = rat] by simp

lemma floor_rat_neg_one_numeral: "\<lfloor>- ((1 :: rat) / numeral b)\<rfloor> = - 1 div numeral b"
  using floor_divide_of_int_eq[of "- 1" "numeral b", where ?'a = rat] by simp

lemmas floor_rat_eval =
  floor_rat_numeral floor_rat_neg_numeral floor_rat_one_numeral floor_rat_neg_one_numeral

text \<open>The weighted score, and the percentage, on the sub-scores used below.\<close>

lemma weightedScore_10_10_10_10: "weightedScore (Fin 10) (Fin 10) (Fin 10) (Fin 10) = Fin 10"
  by (simp only: weightedScore_def weather_weight avalanche_weight terrain_weight group_weight
      jmul_eval_1 jmul_eval_2 jmul_eval_3 jmul_eval_4 jadd_eval_5 jadd_eval_6 jadd_eval_7)

lemma percentage_10_10_10_10: "Math_round (jmul (jdiv (Fin 10) (lit 10)) (lit 100)) = Fin 100"
  by (simp only: lit_10 lit_100 jdiv_eval_8 jmul_eval_9) (simp add: floor_rat_eval)

lemma weightedScore_0_0_0_0: "weightedScore (Fin 0) (Fin 0) (Fin 0) (Fin 0) = Fin 0"
  by (simp only: weightedScore_def weather_weight avalanche_weight terrain_weight group_weight
      jmul_eval_10 jmul_eval_11 jmul_eval_12 jmul_eval_13 jadd_eval_14)

lemma percentage_0_0_0_0: "Math_round (jmul (jdiv (Fin 0) (lit 10)) (lit 100)) = Fin 0"
  by (simp only: lit_10 lit_100 jdiv_eval_15 jmul_eval_16) (simp add: floor_rat_eval)

lemma weightedScore_6_7_5_4: "weightedScore (Fin 6) (Fin 7) (Fin 5) (Fin 4) = Fin (3293257227514675 / 562949953421312)"
  by (simp only: weightedScore_def weather_weight avalanche_weight terrain_weight group_weight
      jmul_eval_17 jmul_eval_18 jmul_eval_19 jmul_eval_20 jadd_eval_21 jadd_eval_22 jadd_eval_23)

lemma percentage_6_7_5_4: "Math_round (jmul (jdiv (Fin (3293257227514675 / 562949953421312)) (lit 10)) (lit 100)) = Fin 59"
  by (simp only: lit_10 lit_100 jdiv_eval_24 jmul_eval_25) (simp add: floor_rat_eval)

lemma weightedScore_3_3_3_3: "weightedScore (Fin 3) (Fin 3) (Fin 3) (Fin 3) = Fin 3"
  by (simp only: weightedScore_def weather_weight avalanche_weight terrain_weight group_weight
      jmul_eval_26 jmul_eval_27 jmul_eval_28 jmul_eval_29 jadd_eval_30 jadd_eval_31 jadd_eval_32)

lemma weightedScore_5_5_5_5: "weightedScore (Fin 5) (Fin 5) (Fin 5) (Fin 5) = Fin 5"
  by (simp only: weightedScore_def weather_weight avalanche_weight terrain_weight group_weight
      jmul_eval_33 jmul_eval_34 jmul_eval_19 jmul_eval_35 jadd_eval_36 jadd_eval_37 jadd_eval_38)

lemma weightedScore_7_7_7_7: "weightedScore (Fin 7) (Fin 7) (Fin 7) (Fin 7) = Fin 7"
  by (simp only: weightedScore_def weather_weight avalanche_weight terrain_weight group_weight
      jmul_eval_39 jmul_eval_18 jmul_eval_40 jmul_eval_41 jadd_eval_42 jadd_eval_43 jadd_eval_44)

lemma weightedScore_20_20_20_20: "weightedScore (Fin 20) (Fin 20) (Fin 20) (Fin 20) = Fin 20"
  by (simp only: weightedScore_def weather_weight avalanche_weight terrain_weight group_weight
      jmul_eval_45 jmul_eval_46 jmul_eval_47 jmul_eval_48 jadd_eval_49 jadd_eval_50 jadd_eval_51)

lemma weightedScore_m5_m5_m5_m5: "weightedScore (Fin (- 5)) (Fin (- 5)) (Fin (- 5)) (Fin (- 5)) = Fin (- 5)"
  by (simp only: weightedScore_def weather_weight avalanche_weight terrain_weight group_weight
      jmul_eval_52 jmul_eval_53 jmul_eval_54 jmul_eval_55 jadd_eval_56 jadd_eval_57 jadd_eval_58)

lemma weightedScore_0_1_0_0: "weightedScore (Fin 0) (Fin 1) (Fin 0) (Fin 0) = Fin (3152519739159347 / 9007199254740992)"
  by (simp only: weightedScore_def weather_weight avalanche_weight terrain_weight group_weight
      jmul_eval_10 jmul_eval_59 jmul_eval_12 jmul_eval_13 jadd_eval_60 jadd_eval_61)

lemma percentage_0_1_0_0: "Math_round (jmul (jdiv (Fin (3152519739159347 / 9007199254740992)) (lit 10)) (lit 100)) = Fin 3"
  by (simp only: lit_10 lit_100 jdiv_eval_62 jmul_eval_63) (simp add: floor_rat_eval)

lemma weightedScore_1_1_1_1: "weightedScore (Fin 1) (Fin 1) (Fin 1) (Fin 1) = Fin (9007199254740991 / 9007199254740992)"
  by (simp only: weightedScore_def weather_weight avalanche_weight terrain_weight group_weight
      jmul_eval_64 jmul_eval_59 jmul_eval_65 jmul_eval_66 jadd_eval_67 jadd_eval_68 jadd_eval_69)

lemma weightedScore_4_5_8_3: "weightedScore (Fin 4) (Fin 5) (Fin 8) (Fin 3) = Fin (5629499534213121 / 1125899906842624)"
  by (simp only: weightedScore_def weather_weight avalanche_weight terrain_weight group_weight
      jmul_eval_70 jmul_eval_34 jmul_eval_71 jmul_eval_29 jadd_eval_72 jadd_eval_73 jadd_eval_74)

lemma percentage_4_5_8_3: "Math_round (jmul (jdiv (Fin (5629499534213121 / 1125899906842624)) (lit 10)) (lit 100)) = Fin 50"
  by (simp only: lit_10 lit_100 jdiv_eval_75 jmul_eval_76) (simp add: floor_rat_eval)

section \<open>The classifier on numeric sub-scores\<close>

lemma calc_numeric:
  assumes "subScores (riskFactors st) = Inr (w, a, t, g)"
  shows "calculateOverallRisk st =
         Inr (st\<lparr>overallRisk :=
                    Some \<lparr>score = weightedScore w a t g,
                          level = riskLevelOf (weightedScore w a t g),
                          color = tierColor (riskLevelOf (weightedScore w a t g)),
                          percentage = Math_round (jmul (jdiv (weightedScore w a t g) (lit 10)) (lit 100))\<rparr>,
                  recommendation := Some (tierRecommendation (riskLevelOf (weightedScore w a t g)))\<rparr>)"
  using assms
  by (simp add: calculateOverallRisk_def weightedScore_def riskLevelOf_def Let_def)

lemma calc_error:
  assumes "subScores (riskFactors st) = Inl e"
  shows "calculateOverallRisk st = Inl e"
  using assms by (simp add: calculateOverallRisk_def)

lemma subScores_withScores: "subScores (riskFactors (withScores w a t g st)) = Inr (w, a, t, g)"
  by (simp add: withScores_def updateRiskFactor_def subScores_def subScore_def)

lemma subScores_initial: "subScores (riskFactors initialState) = Inr (Fin 6, Fin 7, Fin 5, Fin 4)"
  by (simp add: initialState_def initialRiskFactors_def subScores_def subScore_def
      lit_6 lit_7 lit_5 lit_4)

lemma weights_pos:
  "\<exists>c. weather weights = Fin c \<and> 0 < c" "\<exists>c. avalanche weights = Fin c \<and> 0 < c"
  "\<exists>c. terrain weights = Fin c \<and> 0 < c" "\<exists>c. group' weights = Fin c \<and> 0 < c"
  unfolding weather_weight avalanche_weight terrain_weight group_weight
  by (intro exI conjI, rule refl, simp)+

lemma jmul_weight_mono:
  assumes "\<exists>c. k = Fin c \<and> 0 < c" "nle a a'"
  shows "nle (jmul a k) (jmul a' k)"
  using assms jmul_mono_pos by blast

lemma weightedScore_mono:
  assumes "nle w w'" "nle a a'" "nle t t'" "nle g g'"
  shows "nle (weightedScore w a t g) (weightedScore w' a' t' g')"
  unfolding weightedScore_def
  by (intro jadd_mono jmul_weight_mono weights_pos assms)

lemma riskLevelOf_top: "s = NaN \<or> s = PInf \<Longrightarrow> riskLevelOf s = EXTREME"
  by (auto simp: riskLevelOf_def lit_3 lit_5 lit_7)

lemma riskLevelOf_mono:
  assumes "nle s s'"
  shows "severity (riskLevelOf s) \<le> severity (riskLevelOf s')"
proof (cases "s' = NaN \<or> s' = PInf")
  case True
  then have "riskLevelOf s' = EXTREME" by (rule riskLevelOf_top)
  then show ?thesis by (cases "riskLevelOf s") simp_all
next
  case False
  then have le: "jle s s'" using assms by (simp add: nle_def)
  have "jle s k" if "jle s' k" for k using le that by (rule jle_trans)
  then show ?thesis by (auto simp: riskLevelOf_def)
qed

lemma eq_or_jle_nle: "x = y \<or> jle x y \<Longrightarrow> nle x y"
  by (auto simp: nle_refl jle_imp_nle)

lemma weighted_sum_commuted:
  "jadd (jadd (jadd (jmul (lit (30 / 100)) w) (jmul (lit (35 / 100)) a))
              (jmul (lit (20 / 100)) t))
        (jmul (lit (15 / 100)) g) = weightedScore w a t g"
proof -
  have "lit (30 / 100) = weather weights" "lit (35 / 100) = avalanche weights"
       "lit (20 / 100) = terrain weights" "lit (15 / 100) = group' weights"
    by (simp_all add: weights_def weightLiterals_def)
  then show ?thesis by (simp only: weightedScore_def jmul_commute)
qed

text \<open>
  How far a rounded result is from the exact one: half a spacing. Through the four
  products and three sums this keeps the score of sub-scores between 0 and 10 within
  \<open>1 / 2 ^ 48\<close> of the exact weighted sum, and the percentage within a half and
  \<open>1 / 2 ^ 45\<close> of ten times the score.
\<close>

lemma fl_error:
  assumes "0 \<le> x" "x < 2 ^ k" "k \<le> 1023"
  shows "\<exists>r. fl x = Fin r \<and> 0 \<le> r \<and> r - x \<le> 2 ^ k / 2 ^ 54 \<and> x - r \<le> 2 ^ k / 2 ^ 54"
proof (cases "x = 0")
  case True
  then show ?thesis by (simp add: fl_def)
next
  case False
  with assms have x: "0 < x" by simp
  have "2 powi ilog2 x \<le> x" using ilog2_bounds[OF x] by simp
  with assms(2) have "(2::rat) powi ilog2 x < 2 powi int k" by (simp add: power_int_def)
  then have "ilog2 x < int k"
    by (rule_tac ccontr) (use power_int_increasing[of "int k" "ilog2 x" "2::rat"] in simp)
  then have q: "quantum x \<le> int k - 53" by (simp add: quantum_def)
  have "(2::rat) powi quantum x \<le> 2 powi (int k - 53)"
    by (rule power_int_increasing) (use q in simp_all)
  also have "\<dots> = 2 ^ k / 2 ^ 53"
  proof -
    have "(2::rat) powi (int k - 53) = 2 powi int k / 2 powi 53"
      by (rule power_int_diff) simp
    then show ?thesis by simp
  qed
  finally have "2 powi quantum x / 2 \<le> (2::rat) ^ k / 2 ^ 54" by simp
  with nearest_error[of x] have e: "\<bar>nearest x - x\<bar> \<le> 2 ^ k / 2 ^ 54" by linarith
  have "(2::rat) ^ k / 2 ^ 54 \<le> 2 ^ k" by (simp add: divide_le_eq)
  with e assms(2) have "nearest x < 2 ^ k + 2 ^ k" by linarith
  also have "\<dots> = (2::rat) ^ (k + 1)" by simp
  also have "\<dots> \<le> 2 ^ 1024" by (rule power_increasing) (use assms(3) in simp_all)
  finally have "fl x = Fin (nearest x)" using x by (simp add: fl_def)
  moreover have "0 \<le> nearest x" by (rule nearest_nonneg[OF x])
  moreover have "nearest x - x \<le> 2 ^ k / 2 ^ 54" "x - nearest x \<le> 2 ^ k / 2 ^ 54"
    using e by linarith+
  ultimately show ?thesis by blast
qed

lemma weightedScore_error:
  assumes "0 \<le> w" "w \<le> 10" "0 \<le> a" "a \<le> 10" "0 \<le> t" "t \<le> 10" "0 \<le> g" "g \<le> 10"
  shows "\<exists>s. weightedScore (Fin w) (Fin a) (Fin t) (Fin g) = Fin s \<and>
             \<bar>s - (3 / 10 * w + 35 / 100 * a + 2 / 10 * t + 15 / 100 * g)\<bar> \<le> 1 / 2 ^ 48"
proof -
  let ?W1 = "5404319552844595 / 18014398509481984 :: rat"
  let ?W2 = "3152519739159347 / 9007199254740992 :: rat"
  let ?W3 = "3602879701896397 / 18014398509481984 :: rat"
  let ?W4 = "5404319552844595 / 36028797018963968 :: rat"
  obtain p1 where p1: "fl (w * ?W1) = Fin p1" "0 \<le> p1"
      "p1 - w * ?W1 \<le> 2 ^ 2 / 2 ^ 54" "w * ?W1 - p1 \<le> 2 ^ 2 / 2 ^ 54"
    using fl_error[of "w * ?W1" 2] assms by auto
  obtain p2 where p2: "fl (a * ?W2) = Fin p2" "0 \<le> p2"
      "p2 - a * ?W2 \<le> 2 ^ 2 / 2 ^ 54" "a * ?W2 - p2 \<le> 2 ^ 2 / 2 ^ 54"
    using fl_error[of "a * ?W2" 2] assms by auto
  obtain p3 where p3: "fl (t * ?W3) = Fin p3" "0 \<le> p3"
      "p3 - t * ?W3 \<le> 2 ^ 2 / 2 ^ 54" "t * ?W3 - p3 \<le> 2 ^ 2 / 2 ^ 54"
    using fl_error[of "t * ?W3" 2] assms by auto
  obtain p4 where p4: "fl (g * ?W4) = Fin p4" "0 \<le> p4"
      "p4 - g * ?W4 \<le> 2 ^ 2 / 2 ^ 54" "g * ?W4 - p4 \<le> 2 ^ 2 / 2 ^ 54"
    using fl_error[of "g * ?W4" 2] assms by auto
  have b12: "p1 + p2 < 2 ^ 3" using p1 p2 assms by simp
  obtain s1 where s1: "fl (p1 + p2) = Fin s1" "0 \<le> s1"
      "s1 - (p1 + p2) \<le> 2 ^ 3 / 2 ^ 54" "(p1 + p2) - s1 \<le> 2 ^ 3 / 2 ^ 54"
    using fl_error[of "p1 + p2" 3] p1(2) p2(2) b12 by auto
  have b3: "s1 + p3 < 2 ^ 4" using s1 p1 p2 p3 assms by simp
  obtain s2 where s2: "fl (s1 + p3) = Fin s2" "0 \<le> s2"
      "s2 - (s1 + p3) \<le> 2 ^ 4 / 2 ^ 54" "(s1 + p3) - s2 \<le> 2 ^ 4 / 2 ^ 54"
    using fl_error[of "s1 + p3" 4] s1(2) p3(2) b3 by auto
  have b4: "s2 + p4 < 2 ^ 4" using s2 s1 p1 p2 p3 p4 assms by simp
  obtain s where s: "fl (s2 + p4) = Fin s" "0 \<le> s"
      "s - (s2 + p4) \<le> 2 ^ 4 / 2 ^ 54" "(s2 + p4) - s \<le> 2 ^ 4 / 2 ^ 54"
    using fl_error[of "s2 + p4" 4] s2(2) p4(2) b4 by auto
  have "weightedScore (Fin w) (Fin a) (Fin t) (Fin g) = Fin s"
    by (simp only: weightedScore_def weather_weight avalanche_weight terrain_weight group_weight
        jmul.simps jadd.simps p1(1) p2(1) p3(1) p4(1) s1(1) s2(1) s(1))
  moreover have "s - (3 / 10 * w + 35 / 100 * a + 2 / 10 * t + 15 / 100 * g) \<le> 1 / 2 ^ 48"
    using p1(3) p2(3) p3(3) p4(3) s1(3) s2(3) s(3) assms by simp
  moreover have "(3 / 10 * w + 35 / 100 * a + 2 / 10 * t + 15 / 100 * g) - s \<le> 1 / 2 ^ 48"
    using p1(4) p2(4) p3(4) p4(4) s1(4) s2(4) s(4) assms by simp
  ultimately have "weightedScore (Fin w) (Fin a) (Fin t) (Fin g) = Fin s \<and>
      \<bar>s - (3 / 10 * w + 35 / 100 * a + 2 / 10 * t + 15 / 100 * g)\<bar> \<le> 1 / 2 ^ 48"
    unfolding abs_le_iff by linarith
  then show ?thesis ..
qed

lemma percentage_error:
  assumes "0 \<le> s" "s \<le> 10"
  shows "\<exists>n. Math_round (jmul (jdiv (Fin s) (lit 10)) (lit 100)) = Fin (of_int n) \<and>
             0 \<le> n \<and> n \<le> 100 \<and> \<bar>of_int n - s * 10\<bar> \<le> 1 / 2 + 1 / 2 ^ 45"
proof -
  obtain d where d: "fl (s / 10) = Fin d" "0 \<le> d"
      "d - s / 10 \<le> 2 ^ 1 / 2 ^ 54" "s / 10 - d \<le> 2 ^ 1 / 2 ^ 54"
    using fl_error[of "s / 10" 1] assms by auto
  have bd: "d * 100 < 2 ^ 7" using d assms by simp
  obtain p where p: "fl (d * 100) = Fin p" "0 \<le> p"
      "p - d * 100 \<le> 2 ^ 7 / 2 ^ 54" "d * 100 - p \<le> 2 ^ 7 / 2 ^ 54"
    using fl_error[of "d * 100" 7] d(2) bd by auto
  define n where "n = \<lfloor>p + 1 / 2\<rfloor>"
  have n1: "of_int n \<le> p + 1 / 2" unfolding n_def by (rule of_int_floor_le)
  have n2: "p + 1 / 2 < of_int n + 1" unfolding n_def using floor_correct[of "p + 1 / 2"] by simp
  have "Math_round (jmul (jdiv (Fin s) (lit 10)) (lit 100)) = Fin (of_int n)"
    by (simp add: lit_10 lit_100 d(1) p(1) n_def)
  moreover have "\<bar>of_int n - s * 10\<bar> \<le> 1 / 2 + 1 / 2 ^ 45"
  proof -
    have "of_int n - s * 10 \<le> 1 / 2 + 1 / 2 ^ 45" using n1 p(3) d(3) by simp
    moreover have "s * 10 - of_int n \<le> 1 / 2 + 1 / 2 ^ 45" using n2 p(4) d(4) by simp
    ultimately show ?thesis unfolding abs_le_iff by linarith
  qed
  moreover have "0 \<le> n" unfolding n_def using p(2) by simp
  moreover have "n \<le> 100"
  proof -
    have "(of_int n :: rat) < of_int 101" using n1 p(3) d(3) assms by simp
    then have "n < 101" by (simp only: of_int_less_iff)
    then show ?thesis by simp
  qed
  ultimately show ?thesis by blast
qed

lemma result_inject:
  assumes "(st :: state)\<lparr>overallRisk := Some r, recommendation := Some c\<rparr> =
           st\<lparr>overallRisk := Some r', recommendation := Some c'\<rparr>"
  shows "r = r' \<and> c = c'"
proof -
  have "overallRisk (st\<lparr>overallRisk := Some r, recommendation := Some c\<rparr>) =
        overallRisk (st\<lparr>overallRisk := Some r', recommendation := Some c'\<rparr>)"
       "recommendation (st\<lparr>overallRisk := Some r, recommendation := Some c\<rparr>) =
        recommendation (st\<lparr>overallRisk := Some r', recommendation := Some c'\<rparr>)"
    by (simp_all only: assms)
  then show ?thesis by simp
qed

lemma riskLevelOf_evals:
  "riskLevelOf (Fin 0) = LOW" "riskLevelOf (Fin 10) = EXTREME"
  by (simp_all add: riskLevelOf_def lit_3 lit_5 lit_7)

lemma getRiskColor_tier: "getRiskColor s = tierColor (riskLevelOf s)"
  by (simp add: getRiskColor_def riskLevelOf_def)

lemma tierRecommendation_details: "length (details (tierRecommendation l)) = 4"
  by (cases l) simp_all

lemma riskLevelOf_negative: "jlt s (lit 0) \<Longrightarrow> riskLevelOf s = LOW"
  by (cases s) (simp_all add: riskLevelOf_def lit_0 lit_3)

lemma riskLevelOf_above_ten: "jlt (lit 10) s \<Longrightarrow> riskLevelOf s = EXTREME"
  by (cases s) (simp_all add: riskLevelOf_def lit_10 lit_3 lit_5 lit_7)

lemma level_color_pairs:
  "(l, tierColor l) \<in> {(LOW, ''#10b981''), (MODERATE, ''#f59e0b''),
                          (HIGH, ''#f97316''), (EXTREME, ''#dc2626'')}"
  by (cases l) simp_all

text \<open>
  Where the function stops instead: a category that is not in \<^verbatim>\<open>riskFactors\<close> makes the
  property read raise, and nothing is stored.
\<close>

lemma calculateOverallRisk_TypeError:
  "riskFactors st ''weather'' = None \<Longrightarrow> calculateOverallRisk st = Inl TypeError"
  by (rule calc_error) (simp add: subScores_def subScore_def)

text \<open>
  Two runs that exact arithmetic would get wrong. On the sub-scores 1, 1, 1, 1 the score
  is one unit in the last place below 1. On 0, 1, 0, 0 the score is the Number written
  \<^verbatim>\<open>0.35\<close>, which is below 7/20, and the percentage is 3, not 4.
\<close>

lemma example_1_1_1_1:
  "weightedScore (Fin 1) (Fin 1) (Fin 1) (Fin 1) = Fin (1 - 1 / 2 ^ 53)"
  by (simp add: weightedScore_1_1_1_1)

lemma example_0_1_0_0:
  "\<exists>r c. calculateOverallRisk (withScores (Fin 0) (Fin 1) (Fin 0) (Fin 0) initialState) =
           Inr ((withScores (Fin 0) (Fin 1) (Fin 0) (Fin 0) initialState)
                  \<lparr>overallRisk := Some r, recommendation := Some c\<rparr>) \<and>
         jlt (score r) (Fin (7 / 20)) \<and> level r = LOW \<and> percentage r = Fin 3"
  by (intro exI conjI, rule calc_numeric[OF subScores_withScores])
     (simp_all only: overallRisk.simps weightedScore_0_1_0_0 percentage_0_1_0_0 riskLevelOf_def
        lit_3 jle.simps jlt.simps, simp_all)

text \<open>
  The component as it starts: sub-scores 6, 7, 5, 4, score \<^verbatim>\<open>5.85\<close>, level HIGH, and
  percentage 59.
\<close>

lemma example_initialState:
  "\<exists>c. calculateOverallRisk initialState =
         Inr (initialState
                \<lparr>overallRisk := Some \<lparr>score = Fin (3293257227514675 / 562949953421312),
                                      level = HIGH, color = ''#f97316'', percentage = Fin 59\<rparr>,
                 recommendation := Some c\<rparr>) \<and> action c = ''RECONSIDER''"
proof -
  have l: "riskLevelOf (Fin (3293257227514675 / 562949953421312)) = HIGH"
    by (simp add: riskLevelOf_def lit_3 lit_5 lit_7)
  show ?thesis
    by (intro exI conjI, rule calc_numeric[OF subScores_initial, unfolded weightedScore_6_7_5_4 percentage_6_7_5_4 l tierColor.simps])
       simp
qed

section \<open>The claims\<close>

text \<open>
  Claim C1. Whenever the four sub-scores are numbers, \<^verbatim>\<open>calculateOverallRisk\<close> returns, and the
  score it stores is the weighted sum \<^verbatim>\<open>0.30*weather + 0.35*avalanche + 0.20*terrain + 0.15*group\<close>
  as JavaScript evaluates this expression: the four products, then the three sums from
  left to right, each rounded to binary64. For sub-scores between 0 and 10 the score is
  within \<open>1 / 2 ^ 48\<close> of the exact weighted sum.
\<close>

theorem calculateOverallRisk_rounded_weighted_sum:
  assumes "subScores (riskFactors st) = Inr (w, a, t, g)"
  shows "\<exists>r c. calculateOverallRisk st =
                 Inr (st\<lparr>overallRisk := Some r, recommendation := Some c\<rparr>) \<and>
               score r =
                 jadd (jadd (jadd (jmul (lit (30 / 100)) w) (jmul (lit (35 / 100)) a))
                            (jmul (lit (20 / 100)) t))
                      (jmul (lit (15 / 100)) g) \<and>
               (\<forall>x y z u.
                  w = Fin x \<and> a = Fin y \<and> t = Fin z \<and> g = Fin u \<and>
                  0 \<le> x \<and> x \<le> 10 \<and> 0 \<le> y \<and> y \<le> 10 \<and>
                  0 \<le> z \<and> z \<le> 10 \<and> 0 \<le> u \<and> u \<le> 10 \<longrightarrow>
                  (\<exists>s. score r = Fin s \<and>
                       \<bar>s - (30 / 100 * x + 35 / 100 * y + 20 / 100 * z + 15 / 100 * u)\<bar>
                         \<le> 1 / 2 ^ 48))"
proof -
  let ?s = "weightedScore w a t g"
  let ?r = "\<lparr>score = ?s, level = riskLevelOf ?s, color = tierColor (riskLevelOf ?s),
             percentage = Math_round (jmul (jdiv ?s (lit 10)) (lit 100))\<rparr>"
  have 1: "calculateOverallRisk st =
           Inr (st\<lparr>overallRisk := Some ?r,
                   recommendation := Some (tierRecommendation (riskLevelOf ?s))\<rparr>)"
    by (rule calc_numeric[OF assms])
  have 2: "score ?r =
                 jadd (jadd (jadd (jmul (lit (30 / 100)) w) (jmul (lit (35 / 100)) a))
                            (jmul (lit (20 / 100)) t))
                      (jmul (lit (15 / 100)) g)"
    by (simp only: overallRisk.simps weighted_sum_commuted)
  have 3: "\<exists>s. score ?r = Fin s \<and>
               \<bar>s - (30 / 100 * x + 35 / 100 * y + 20 / 100 * z + 15 / 100 * u)\<bar> \<le> 1 / 2 ^ 48"
    if h: "w = Fin x \<and> a = Fin y \<and> t = Fin z \<and> g = Fin u \<and>
        0 \<le> x \<and> x \<le> 10 \<and> 0 \<le> y \<and> y \<le> 10 \<and>
        0 \<le> z \<and> z \<le> 10 \<and> 0 \<le> u \<and> u \<le> 10" for x y z u
  proof -
    obtain s where "weightedScore (Fin x) (Fin y) (Fin z) (Fin u) = Fin s"
      and "\<bar>s - (3 / 10 * x + 35 / 100 * y + 2 / 10 * z + 15 / 100 * u)\<bar> \<le> 1 / 2 ^ 48"
      using weightedScore_error[of x y z u] h by blast
    then show ?thesis using h by auto
  qed
  from 1 2 3 show ?thesis by blast
qed

theorem calculateOverallRisk_rounded_weighted_sum_witness:
  "subScores (riskFactors initialState) = Inr (Fin 6, Fin 7, Fin 5, Fin 4) \<and>
   (\<exists>r c s. calculateOverallRisk initialState =
               Inr (initialState\<lparr>overallRisk := Some r, recommendation := Some c\<rparr>) \<and>
             score r = Fin s \<and>
             \<bar>s - (30 / 100 * 6 + 35 / 100 * 7 + 20 / 100 * 5 + 15 / 100 * 4)\<bar> \<le> 1 / 2 ^ 48)"
proof -
  obtain r c where 1: "calculateOverallRisk initialState =
      Inr (initialState\<lparr>overallRisk := Some r, recommendation := Some c\<rparr>)"
    and 2: "\<forall>x y z u.
                  Fin 6 = Fin x \<and> Fin 7 = Fin y \<and> Fin 5 = Fin z \<and> Fin 4 = Fin u \<and>
                  0 \<le> x \<and> x \<le> 10 \<and> 0 \<le> y \<and> y \<le> 10 \<and>
                  0 \<le> z \<and> z \<le> 10 \<and> 0 \<le> u \<and> u \<le> 10 \<longrightarrow>
                  (\<exists>s. score r = Fin s \<and>
                       \<bar>s - (30 / 100 * x + 35 / 100 * y + 20 / 100 * z + 15 / 100 * u)\<bar>
                         \<le> 1 / 2 ^ 48)"
    using calculateOverallRisk_rounded_weighted_sum[OF subScores_initial] by blast
  have "Fin 6 = Fin (6::rat) \<and> Fin 7 = Fin (7::rat) \<and> Fin 5 = Fin (5::rat) \<and> Fin 4 = Fin (4::rat) \<and>
        (0::rat) \<le> 6 \<and> (6::rat) \<le> 10 \<and> (0::rat) \<le> 7 \<and> (7::rat) \<le> 10 \<and>
        (0::rat) \<le> 5 \<and> (5::rat) \<le> 10 \<and> (0::rat) \<le> 4 \<and> (4::rat) \<le> 10" by simp
  with 2 have "\<exists>s. score r = Fin s \<and>
      \<bar>s - (30 / 100 * 6 + 35 / 100 * 7 + 20 / 100 * 5 + 15 / 100 * 4)\<bar> \<le> 1 / 2 ^ 48"
    by blast
  with 1 subScores_initial show ?thesis by blast
qed

text \<open>
  The score is not always the exact weighted sum. On the sub-scores 4, 5, 8, 3 the exact
  sum is 5; the code stores \<open>5 + 1 / 2 ^ 50\<close>, and with it the level HIGH where a score
  of 5 is MODERATE.
\<close>

theorem weighted_sum_not_exact_counterexample:
  "map_sum id overallRisk
     (calculateOverallRisk (withScores (Fin 4) (Fin 5) (Fin 8) (Fin 3) initialState)) =
     Inr (Some \<lparr>score = Fin (5 + 1 / 2 ^ 50), level = HIGH, color = ''#f97316'',
                percentage = Fin 50\<rparr>) \<and>
   30 / 100 * 4 + 35 / 100 * 5 + 20 / 100 * 8 + 15 / 100 * 3 = (5 :: rat) \<and>
   Fin (5 + 1 / 2 ^ 50) \<noteq> Fin 5"
proof -
  have s: "weightedScore (Fin 4) (Fin 5) (Fin 8) (Fin 3) = Fin (5 + 1 / 2 ^ 50)"
    by (simp add: weightedScore_4_5_8_3)
  have p: "Math_round (jmul (jdiv (Fin (5 + 1 / 2 ^ 50)) (lit 10)) (lit 100)) = Fin 50"
    using percentage_4_5_8_3 by simp
  have l: "riskLevelOf (Fin (5 + 1 / 2 ^ 50)) = HIGH"
    by (simp add: riskLevelOf_def lit_3 lit_5 lit_7)
  have "map_sum id overallRisk
     (calculateOverallRisk (withScores (Fin 4) (Fin 5) (Fin 8) (Fin 3) initialState)) =
     Inr (Some \<lparr>score = Fin (5 + 1 / 2 ^ 50), level = HIGH, color = ''#f97316'',
                percentage = Fin 50\<rparr>)"
    by (simp only: calc_numeric[OF subScores_withScores] s p l tierColor.simps)
       simp
  then show ?thesis by simp
qed

text \<open>
  Claim C2. The level is given by the ascending chain with inclusive bounds, the first
  match winning: \<^verbatim>\<open>score <= 3\<close> gives LOW, else \<^verbatim>\<open>score <= 5\<close> gives MODERATE, else
  \<^verbatim>\<open>score <= 7\<close> gives HIGH, else EXTREME. A score equal to 3, 5 or 7 is in the lower of
  the two levels that meet there.
\<close>

theorem calculateOverallRisk_tier_chain:
  assumes "subScores (riskFactors st) = Inr (w, a, t, g)"
  shows "\<exists>r c. calculateOverallRisk st =
                 Inr (st\<lparr>overallRisk := Some r, recommendation := Some c\<rparr>) \<and>
               level r = (if jle (score r) (lit 3) then LOW
                          else if jle (score r) (lit 5) then MODERATE
                          else if jle (score r) (lit 7) then HIGH
                          else EXTREME) \<and>
               (score r = lit 3 \<longrightarrow> level r = LOW) \<and>
               (score r = lit 5 \<longrightarrow> level r = MODERATE) \<and>
               (score r = lit 7 \<longrightarrow> level r = HIGH)"
  by (intro exI conjI, rule calc_numeric[OF assms])
     (simp_all add: riskLevelOf_def lit_3 lit_5 lit_7)

theorem calculateOverallRisk_tier_chain_witness:
  "(\<exists>r c. calculateOverallRisk (withScores (lit 3) (lit 3) (lit 3) (lit 3) initialState) =
             Inr ((withScores (lit 3) (lit 3) (lit 3) (lit 3) initialState)
                    \<lparr>overallRisk := Some r, recommendation := Some c\<rparr>) \<and>
           score r = lit 3 \<and> level r = LOW) \<and>
   (\<exists>r c. calculateOverallRisk (withScores (lit 5) (lit 5) (lit 5) (lit 5) initialState) =
             Inr ((withScores (lit 5) (lit 5) (lit 5) (lit 5) initialState)
                    \<lparr>overallRisk := Some r, recommendation := Some c\<rparr>) \<and>
           score r = lit 5 \<and> level r = MODERATE) \<and>
   (\<exists>r c. calculateOverallRisk (withScores (lit 7) (lit 7) (lit 7) (lit 7) initialState) =
             Inr ((withScores (lit 7) (lit 7) (lit 7) (lit 7) initialState)
                    \<lparr>overallRisk := Some r, recommendation := Some c\<rparr>) \<and>
           score r = lit 7 \<and> level r = HIGH)"
proof (intro conjI)
  let ?s3 = "withScores (lit 3) (lit 3) (lit 3) (lit 3) initialState"
  let ?s5 = "withScores (lit 5) (lit 5) (lit 5) (lit 5) initialState"
  let ?s7 = "withScores (lit 7) (lit 7) (lit 7) (lit 7) initialState"
  obtain r c where 1: "calculateOverallRisk ?s3 = Inr (?s3\<lparr>overallRisk := Some r, recommendation := Some c\<rparr>)"
    and 2: "score r = lit 3 \<longrightarrow> level r = LOW"
    using calculateOverallRisk_tier_chain[OF subScores_withScores, of "lit 3" "lit 3" "lit 3" "lit 3" initialState]
    by blast
  have "score r = lit 3"
    using 1 calc_numeric[OF subScores_withScores, of "lit 3" "lit 3" "lit 3" "lit 3" initialState]
    by (auto dest!: result_inject simp: lit_3 weightedScore_3_3_3_3)
  with 1 2 show "\<exists>r c. calculateOverallRisk ?s3 = Inr (?s3\<lparr>overallRisk := Some r, recommendation := Some c\<rparr>) \<and>
           score r = lit 3 \<and> level r = LOW" by blast
  obtain r c where 1: "calculateOverallRisk ?s5 = Inr (?s5\<lparr>overallRisk := Some r, recommendation := Some c\<rparr>)"
    and 2: "score r = lit 5 \<longrightarrow> level r = MODERATE"
    using calculateOverallRisk_tier_chain[OF subScores_withScores, of "lit 5" "lit 5" "lit 5" "lit 5" initialState]
    by blast
  have "score r = lit 5"
    using 1 calc_numeric[OF subScores_withScores, of "lit 5" "lit 5" "lit 5" "lit 5" initialState]
    by (auto dest!: result_inject simp: lit_5 weightedScore_5_5_5_5)
  with 1 2 show "\<exists>r c. calculateOverallRisk ?s5 = Inr (?s5\<lparr>overallRisk := Some r, recommendation := Some c\<rparr>) \<and>
           score r = lit 5 \<and> level r = MODERATE" by blast
  obtain r c where 1: "calculateOverallRisk ?s7 = Inr (?s7\<lparr>overallRisk := Some r, recommendation := Some c\<rparr>)"
    and 2: "score r = lit 7 \<longrightarrow> level r = HIGH"
    using calculateOverallRisk_tier_chain[OF subScores_withScores, of "lit 7" "lit 7" "lit 7" "lit 7" initialState]
    by blast
  have "score r = lit 7"
    using 1 calc_numeric[OF subScores_withScores, of "lit 7" "lit 7" "lit 7" "lit 7" initialState]
    by (auto dest!: result_inject simp: lit_7 weightedScore_7_7_7_7)
  with 1 2 show "\<exists>r c. calculateOverallRisk ?s7 = Inr (?s7\<lparr>overallRisk := Some r, recommendation := Some c\<rparr>) \<and>
           score r = lit 7 \<and> level r = HIGH" by blast
qed

text \<open>
  Claim C3. Monotonicity. Let every sub-score of the second state be the same as in the
  first or compare \<^verbatim>\<open><=\<close>-greater (so three of them may be held fixed, at any value, and
  the fourth increased). Then the second score is not \<^verbatim>\<open><\<close> the first, and the second level
  is not of lower severity, the levels ordered LOW, MODERATE, HIGH, EXTREME.
\<close>

theorem calculateOverallRisk_monotone:
  assumes "subScores (riskFactors st) = Inr (w, a, t, g)"
      and "subScores (riskFactors st') = Inr (w', a', t', g')"
      and "w = w' \<or> jle w w'" "a = a' \<or> jle a a'" "t = t' \<or> jle t t'" "g = g' \<or> jle g g'"
  shows "\<exists>r c r' c'.
           calculateOverallRisk st =
             Inr (st\<lparr>overallRisk := Some r, recommendation := Some c\<rparr>) \<and>
           calculateOverallRisk st' =
             Inr (st'\<lparr>overallRisk := Some r', recommendation := Some c'\<rparr>) \<and>
           \<not> jlt (score r') (score r) \<and>
           severity (level r) \<le> severity (level r')"
proof -
  have "nle (weightedScore w a t g) (weightedScore w' a' t' g')"
    by (intro weightedScore_mono eq_or_jle_nle assms)
  then have 1: "\<not> jlt (weightedScore w' a' t' g') (weightedScore w a t g)"
    and 2: "severity (riskLevelOf (weightedScore w a t g)) \<le> severity (riskLevelOf (weightedScore w' a' t' g'))"
    by (rule nle_not_jlt, rule riskLevelOf_mono)
  show ?thesis
    by (intro exI conjI, rule calc_numeric[OF assms(1)], rule calc_numeric[OF assms(2)])
       (simp_all add: 1 2)
qed

theorem calculateOverallRisk_monotone_witness:
  "subScores (riskFactors initialState) = Inr (Fin 6, Fin 7, Fin 5, Fin 4) \<and>
   subScores (riskFactors (withScores (Fin 8) (Fin 7) (Fin 5) (Fin 4) initialState)) =
     Inr (Fin 8, Fin 7, Fin 5, Fin 4) \<and>
   jle (Fin 6) (Fin 8) \<and>
   (\<exists>r c r' c'.
      calculateOverallRisk initialState =
        Inr (initialState\<lparr>overallRisk := Some r, recommendation := Some c\<rparr>) \<and>
      calculateOverallRisk (withScores (Fin 8) (Fin 7) (Fin 5) (Fin 4) initialState) =
        Inr ((withScores (Fin 8) (Fin 7) (Fin 5) (Fin 4) initialState)
               \<lparr>overallRisk := Some r', recommendation := Some c'\<rparr>) \<and>
      \<not> jlt (score r') (score r) \<and>
      severity (level r) \<le> severity (level r'))"
proof -
  have le: "Fin 6 = Fin 8 \<or> jle (Fin 6) (Fin 8)" by simp
  show ?thesis
    using calculateOverallRisk_monotone[OF subScores_initial subScores_withScores le, of "Fin 7" "Fin 5" "Fin 4" initialState]
      subScores_initial subScores_withScores[of "Fin 8" "Fin 7" "Fin 5" "Fin 4" initialState]
    by simp
qed

text \<open>
  Claim C4. If each of the four sub-scores lies in the closed interval from 0 to 10, so
  does the weighted score, rounding included.
\<close>

theorem calculateOverallRisk_score_range:
  assumes "subScores (riskFactors st) = Inr (w, a, t, g)"
      and "jle (lit 0) w" "jle w (lit 10)" "jle (lit 0) a" "jle a (lit 10)"
      and "jle (lit 0) t" "jle t (lit 10)" "jle (lit 0) g" "jle g (lit 10)"
  shows "\<exists>r c. calculateOverallRisk st =
                 Inr (st\<lparr>overallRisk := Some r, recommendation := Some c\<rparr>) \<and>
               jle (lit 0) (score r) \<and> jle (score r) (lit 10)"
proof -
  have lo: "nle (Fin 0) w" "nle (Fin 0) a" "nle (Fin 0) t" "nle (Fin 0) g"
    using assms by (simp_all add: lit_0 jle_imp_nle)
  have hi: "nle w (Fin 10)" "nle a (Fin 10)" "nle t (Fin 10)" "nle g (Fin 10)"
    using assms by (simp_all add: lit_10 jle_imp_nle)
  have "nle (weightedScore w a t g) (weightedScore (Fin 10) (Fin 10) (Fin 10) (Fin 10))"
    by (intro weightedScore_mono hi)
  then have 1: "jle (weightedScore w a t g) (Fin 10)"
    by (simp add: weightedScore_10_10_10_10 nle_def)
  have "nle (weightedScore (Fin 0) (Fin 0) (Fin 0) (Fin 0)) (weightedScore w a t g)"
    by (intro weightedScore_mono lo)
  then have 2: "jle (Fin 0) (weightedScore w a t g)"
    using 1 by (auto simp: weightedScore_0_0_0_0 nle_def)
  show ?thesis
    by (intro exI conjI, rule calc_numeric[OF assms(1)]) (simp_all add: 1 2 lit_0 lit_10)
qed

theorem calculateOverallRisk_score_range_witness:
  "subScores (riskFactors initialState) = Inr (Fin 6, Fin 7, Fin 5, Fin 4) \<and>
   jle (lit 0) (Fin 6) \<and> jle (Fin 6) (lit 10) \<and> jle (lit 0) (Fin 7) \<and> jle (Fin 7) (lit 10) \<and>
   jle (lit 0) (Fin 5) \<and> jle (Fin 5) (lit 10) \<and> jle (lit 0) (Fin 4) \<and> jle (Fin 4) (lit 10) \<and>
   (\<exists>r c. calculateOverallRisk initialState =
             Inr (initialState\<lparr>overallRisk := Some r, recommendation := Some c\<rparr>) \<and>
           jle (lit 0) (score r) \<and> jle (score r) (lit 10))"
proof -
  have h: "jle (lit 0) (Fin 6)" "jle (Fin 6) (lit 10)" "jle (lit 0) (Fin 7)" "jle (Fin 7) (lit 10)"
          "jle (lit 0) (Fin 5)" "jle (Fin 5) (lit 10)" "jle (lit 0) (Fin 4)" "jle (Fin 4) (lit 10)"
    by (simp_all add: lit_0 lit_10)
  show ?thesis
    using calculateOverallRisk_score_range[OF subScores_initial h] subScores_initial h
    by simp
qed

text \<open>
  Claim C5. The stored percentage is \<^verbatim>\<open>Math.round((score / 10) * 100)\<close> as JavaScript
  evaluates it: the quotient and the product are rounded to binary64, and \<^verbatim>\<open>Math.round\<close>
  of a finite \<open>p\<close> is the floor of \<open>p + 1 / 2\<close>. For a score between 0 and 10 the
  percentage is an integer between 0 and 100, within \<open>1 / 2 + 1 / 2 ^ 45\<close> of
  \<open>score / 10 * 100\<close>. With the four sub-scores equal to 0 the score is 0, the level LOW
  and the percentage 0; with the four equal to 10 the score is 10, the level EXTREME and
  the percentage 100.
\<close>

theorem calculateOverallRisk_rounded_percentage:
  assumes "subScores (riskFactors st) = Inr (w, a, t, g)"
  shows "\<exists>r c. calculateOverallRisk st =
                 Inr (st\<lparr>overallRisk := Some r, recommendation := Some c\<rparr>) \<and>
               percentage r =
                 (case jmul (jdiv (score r) (lit 10)) (lit 100) of
                    Fin p \<Rightarrow> Fin (of_int \<lfloor>p + 1 / 2\<rfloor>)
                  | NaN \<Rightarrow> NaN | NInf \<Rightarrow> NInf | PInf \<Rightarrow> PInf) \<and>
               (\<forall>s. score r = Fin s \<and> 0 \<le> s \<and> s \<le> 10 \<longrightarrow>
                  (\<exists>n. percentage r = Fin (of_int n) \<and> 0 \<le> n \<and> n \<le> 100 \<and>
                       \<bar>of_int n - s / 10 * 100\<bar> \<le> 1 / 2 + 1 / 2 ^ 45)) \<and>
               (w = lit 0 \<and> a = lit 0 \<and> t = lit 0 \<and> g = lit 0 \<longrightarrow>
                  score r = lit 0 \<and> level r = LOW \<and> percentage r = lit 0) \<and>
               (w = lit 10 \<and> a = lit 10 \<and> t = lit 10 \<and> g = lit 10 \<longrightarrow>
                  score r = lit 10 \<and> level r = EXTREME \<and> percentage r = lit 100)"
proof -
  let ?s = "weightedScore w a t g"
  have z: "?s = lit 0 \<and> riskLevelOf ?s = LOW \<and>
           Math_round (jmul (jdiv ?s (lit 10)) (lit 100)) = lit 0"
    if "w = lit 0 \<and> a = lit 0 \<and> t = lit 0 \<and> g = lit 0"
    using that
    by (simp only: lit_0 lit_10 lit_100 weightedScore_0_0_0_0 riskLevelOf_evals
        percentage_0_0_0_0[unfolded lit_10 lit_100] simp_thms)
  have x: "?s = lit 10 \<and> riskLevelOf ?s = EXTREME \<and>
           Math_round (jmul (jdiv ?s (lit 10)) (lit 100)) = lit 100"
    if "w = lit 10 \<and> a = lit 10 \<and> t = lit 10 \<and> g = lit 10"
    using that
    by (simp only: lit_10 lit_100 weightedScore_10_10_10_10 riskLevelOf_evals
        percentage_10_10_10_10[unfolded lit_10 lit_100] simp_thms)
  let ?r = "\<lparr>score = ?s, level = riskLevelOf ?s, color = tierColor (riskLevelOf ?s),
             percentage = Math_round (jmul (jdiv ?s (lit 10)) (lit 100))\<rparr>"
  have 1: "calculateOverallRisk st =
           Inr (st\<lparr>overallRisk := Some ?r,
                   recommendation := Some (tierRecommendation (riskLevelOf ?s))\<rparr>)"
    by (rule calc_numeric[OF assms])
  have 2: "percentage ?r =
                 (case jmul (jdiv (score ?r) (lit 10)) (lit 100) of
                    Fin p \<Rightarrow> Fin (of_int \<lfloor>p + 1 / 2\<rfloor>)
                  | NaN \<Rightarrow> NaN | NInf \<Rightarrow> NInf | PInf \<Rightarrow> PInf)"
    by (cases "jmul (jdiv ?s (lit 10)) (lit 100)") simp_all
  have 3: "w = lit 0 \<and> a = lit 0 \<and> t = lit 0 \<and> g = lit 0 \<longrightarrow>
           score ?r = lit 0 \<and> level ?r = LOW \<and> percentage ?r = lit 0"
    by (simp only: overallRisk.simps) (rule impI, erule z)
  have 4: "w = lit 10 \<and> a = lit 10 \<and> t = lit 10 \<and> g = lit 10 \<longrightarrow>
           score ?r = lit 10 \<and> level ?r = EXTREME \<and> percentage ?r = lit 100"
    by (simp only: overallRisk.simps) (rule impI, erule x)
  have 5: "\<exists>n. percentage ?r = Fin (of_int n) \<and> 0 \<le> n \<and> n \<le> 100 \<and>
                \<bar>of_int n - s / 10 * 100\<bar> \<le> 1 / 2 + 1 / 2 ^ 45"
    if h: "score ?r = Fin s \<and> 0 \<le> s \<and> s \<le> 10" for s
  proof -
    from h have e: "?s = Fin s" and b: "0 \<le> s" "s \<le> 10" by simp_all
    have q: "s / 10 * 100 = s * 10" by simp
    obtain n where "Math_round (jmul (jdiv (Fin s) (lit 10)) (lit 100)) = Fin (of_int n)"
      and "0 \<le> n" "n \<le> 100" "\<bar>of_int n - s * 10\<bar> \<le> 1 / 2 + 1 / 2 ^ 45"
      using percentage_error[OF b] by blast
    then show ?thesis unfolding q overallRisk.simps e by blast
  qed
  from 1 2 3 4 5 show ?thesis by blast
qed

theorem calculateOverallRisk_rounded_percentage_witness:
  "(\<exists>r c. calculateOverallRisk (withScores (lit 0) (lit 0) (lit 0) (lit 0) initialState) =
             Inr ((withScores (lit 0) (lit 0) (lit 0) (lit 0) initialState)
                    \<lparr>overallRisk := Some r, recommendation := Some c\<rparr>) \<and>
           score r = lit 0 \<and> level r = LOW \<and> percentage r = lit 0) \<and>
   (\<exists>r c. calculateOverallRisk (withScores (lit 10) (lit 10) (lit 10) (lit 10) initialState) =
             Inr ((withScores (lit 10) (lit 10) (lit 10) (lit 10) initialState)
                    \<lparr>overallRisk := Some r, recommendation := Some c\<rparr>) \<and>
           score r = lit 10 \<and> level r = EXTREME \<and> percentage r = lit 100) \<and>
   (\<exists>r c n. calculateOverallRisk initialState =
               Inr (initialState\<lparr>overallRisk := Some r, recommendation := Some c\<rparr>) \<and>
             score r = Fin (3293257227514675 / 562949953421312) \<and>
             percentage r = Fin (of_int n) \<and> 0 \<le> n \<and> n \<le> 100 \<and>
             \<bar>of_int n - (3293257227514675 / 562949953421312 :: rat) / 10 * 100\<bar>
               \<le> 1 / 2 + 1 / 2 ^ 45)"
proof (intro conjI)
  show "\<exists>r c. calculateOverallRisk (withScores (lit 0) (lit 0) (lit 0) (lit 0) initialState) =
             Inr ((withScores (lit 0) (lit 0) (lit 0) (lit 0) initialState)
                    \<lparr>overallRisk := Some r, recommendation := Some c\<rparr>) \<and>
           score r = lit 0 \<and> level r = LOW \<and> percentage r = lit 0"
    using calculateOverallRisk_rounded_percentage[OF subScores_withScores, of "lit 0" "lit 0" "lit 0" "lit 0" initialState]
    by blast
  show "\<exists>r c. calculateOverallRisk (withScores (lit 10) (lit 10) (lit 10) (lit 10) initialState) =
             Inr ((withScores (lit 10) (lit 10) (lit 10) (lit 10) initialState)
                    \<lparr>overallRisk := Some r, recommendation := Some c\<rparr>) \<and>
           score r = lit 10 \<and> level r = EXTREME \<and> percentage r = lit 100"
    using calculateOverallRisk_rounded_percentage[OF subScores_withScores, of "lit 10" "lit 10" "lit 10" "lit 10" initialState]
    by blast
  let ?S = "3293257227514675 / 562949953421312 :: rat"
  obtain r c where 1: "calculateOverallRisk initialState =
      Inr (initialState\<lparr>overallRisk := Some r, recommendation := Some c\<rparr>)"
    and 2: "\<forall>s. score r = Fin s \<and> 0 \<le> s \<and> s \<le> 10 \<longrightarrow>
                  (\<exists>n. percentage r = Fin (of_int n) \<and> 0 \<le> n \<and> n \<le> 100 \<and>
                       \<bar>of_int n - s / 10 * 100\<bar> \<le> 1 / 2 + 1 / 2 ^ 45)"
    using calculateOverallRisk_rounded_percentage[OF subScores_initial] by blast
  have 3: "score r = Fin ?S"
    using 1 calc_numeric[OF subScores_initial]
    by (auto dest!: result_inject simp: weightedScore_6_7_5_4)
  moreover have "0 \<le> ?S \<and> ?S \<le> 10" by simp
  ultimately have "\<exists>n. percentage r = Fin (of_int n) \<and> 0 \<le> n \<and> n \<le> 100 \<and>
                       \<bar>of_int n - ?S / 10 * 100\<bar> \<le> 1 / 2 + 1 / 2 ^ 45"
    using 2 by blast
  with 1 3 show "\<exists>r c n. calculateOverallRisk initialState =
               Inr (initialState\<lparr>overallRisk := Some r, recommendation := Some c\<rparr>) \<and>
             score r = Fin ?S \<and>
             percentage r = Fin (of_int n) \<and> 0 \<le> n \<and> n \<le> 100 \<and>
             \<bar>of_int n - ?S / 10 * 100\<bar> \<le> 1 / 2 + 1 / 2 ^ 45" by blast
qed

text \<open>
  The percentage is not always the nearest integer to \<open>score / 10 * 100\<close>. As the
  component starts, the stored score is just below \<open>5.85\<close> and its exact percentage
  rounds to 58; the binary64 product is \<open>58.5\<close> and the code stores 59.
\<close>

theorem percentage_not_exact_round_counterexample:
  "map_sum id overallRisk (calculateOverallRisk initialState) =
     Inr (Some \<lparr>score = Fin (3293257227514675 / 562949953421312), level = HIGH,
                color = ''#f97316'', percentage = Fin 59\<rparr>) \<and>
   round (3293257227514675 / 562949953421312 / 10 * 100 :: rat) = 58"
proof -
  have l: "riskLevelOf (Fin (3293257227514675 / 562949953421312)) = HIGH"
    by (simp add: riskLevelOf_def lit_3 lit_5 lit_7)
  have "map_sum id overallRisk (calculateOverallRisk initialState) =
     Inr (Some \<lparr>score = Fin (3293257227514675 / 562949953421312), level = HIGH,
                color = ''#f97316'', percentage = Fin 59\<rparr>)"
    by (simp only: calc_numeric[OF subScores_initial] weightedScore_6_7_5_4 percentage_6_7_5_4 l
        tierColor.simps) simp
  moreover have "round (3293257227514675 / 562949953421312 / 10 * 100 :: rat) = 58"
    by (simp add: round_def floor_rat_eval)
  ultimately show ?thesis by (rule conjI)
qed

text \<open>
  Claim C6. Determinism. On numeric sub-scores, what \<^verbatim>\<open>calculateOverallRisk\<close> stores (score,
  level, color, percentage and recommendation) is a function of the four sub-scores alone:
  two states that agree on them get the same \<^verbatim>\<open>overallRisk\<close> and the same
  \<^verbatim>\<open>recommendation\<close>, whatever else they hold. And the call leaves \<^verbatim>\<open>riskFactors\<close>, its
  input, as it was.
\<close>

theorem calculateOverallRisk_deterministic:
  assumes "subScores (riskFactors s1) = Inr (w, a, t, g)"
      and "subScores (riskFactors s2) = Inr (w, a, t, g)"
  shows "\<exists>r c. calculateOverallRisk s1 =
                 Inr (s1\<lparr>overallRisk := Some r, recommendation := Some c\<rparr>) \<and>
               calculateOverallRisk s2 =
                 Inr (s2\<lparr>overallRisk := Some r, recommendation := Some c\<rparr>) \<and>
               riskFactors (s1\<lparr>overallRisk := Some r, recommendation := Some c\<rparr>) = riskFactors s1 \<and>
               riskFactors (s2\<lparr>overallRisk := Some r, recommendation := Some c\<rparr>) = riskFactors s2"
  by (intro exI conjI, rule calc_numeric[OF assms(1)], rule calc_numeric[OF assms(2)]) simp_all

theorem calculateOverallRisk_deterministic_witness:
  "subScores (riskFactors initialState) = Inr (Fin 6, Fin 7, Fin 5, Fin 4) \<and>
   subScores (riskFactors (updateRiskFactor ''weather'' ''temperature'' (Num (lit 0)) initialState)) =
     Inr (Fin 6, Fin 7, Fin 5, Fin 4) \<and>
   initialState \<noteq> updateRiskFactor ''weather'' ''temperature'' (Num (lit 0)) initialState \<and>
   (\<exists>r c. calculateOverallRisk initialState =
             Inr (initialState\<lparr>overallRisk := Some r, recommendation := Some c\<rparr>) \<and>
           calculateOverallRisk (updateRiskFactor ''weather'' ''temperature'' (Num (lit 0)) initialState) =
             Inr ((updateRiskFactor ''weather'' ''temperature'' (Num (lit 0)) initialState)
                    \<lparr>overallRisk := Some r, recommendation := Some c\<rparr>))"
proof -
  let ?s2 = "updateRiskFactor ''weather'' ''temperature'' (Num (lit 0)) initialState"
  have h: "subScores (riskFactors ?s2) = Inr (Fin 6, Fin 7, Fin 5, Fin 4)"
    by (simp add: updateRiskFactor_def initialState_def initialRiskFactors_def subScores_def
        subScore_def lit_6 lit_7 lit_5 lit_4)
  have "the (riskFactors initialState ''weather'') ''temperature'' \<noteq>
        the (riskFactors ?s2 ''weather'') ''temperature''"
    by (simp add: updateRiskFactor_def initialState_def initialRiskFactors_def lit_0 lit_m5)
  then have d: "initialState \<noteq> ?s2" by auto
  show ?thesis
    using calculateOverallRisk_deterministic[OF subScores_initial h] subScores_initial h d
    by blast
qed

text \<open>
  Claim C7. Color and recommendation are functions of the level alone, given by the tables
  \<open>tierColor\<close> and \<open>tierRecommendation\<close> (LOW: \<^verbatim>\<open>#10b981\<close>, GO; MODERATE: \<^verbatim>\<open>#f59e0b\<close>, CAUTION;
  HIGH: \<^verbatim>\<open>#f97316\<close>, RECONSIDER; EXTREME: \<^verbatim>\<open>#dc2626\<close>, CRITICAL RISK); every recommendation
  has four detail lines; and the color is what \<^verbatim>\<open>getRiskColor\<close> returns for the score.
\<close>

theorem calculateOverallRisk_color_recommendation:
  assumes "subScores (riskFactors st) = Inr (w, a, t, g)"
  shows "(\<exists>r c. calculateOverallRisk st =
                  Inr (st\<lparr>overallRisk := Some r, recommendation := Some c\<rparr>) \<and>
                color r = tierColor (level r) \<and>
                c = tierRecommendation (level r) \<and>
                length (details c) = 4 \<and>
                color r = getRiskColor (score r)) \<and>
         map (\<lambda>l. (tierColor l, action (tierRecommendation l))) [LOW, MODERATE, HIGH, EXTREME] =
           [(''#10b981'', ''GO''), (''#f59e0b'', ''CAUTION''),
            (''#f97316'', ''RECONSIDER''), (''#dc2626'', ''CRITICAL RISK'')]"
proof (rule conjI)
  show "\<exists>r c. calculateOverallRisk st =
                  Inr (st\<lparr>overallRisk := Some r, recommendation := Some c\<rparr>) \<and>
                color r = tierColor (level r) \<and>
                c = tierRecommendation (level r) \<and>
                length (details c) = 4 \<and>
                color r = getRiskColor (score r)"
    by (intro exI conjI, rule calc_numeric[OF assms])
       (simp_all add: getRiskColor_tier tierRecommendation_details)
  show "map (\<lambda>l. (tierColor l, action (tierRecommendation l))) [LOW, MODERATE, HIGH, EXTREME] =
           [(''#10b981'', ''GO''), (''#f59e0b'', ''CAUTION''),
            (''#f97316'', ''RECONSIDER''), (''#dc2626'', ''CRITICAL RISK'')]"
    by simp
qed

theorem calculateOverallRisk_color_recommendation_witness:
  "subScores (riskFactors initialState) = Inr (Fin 6, Fin 7, Fin 5, Fin 4) \<and>
   (\<exists>r c. calculateOverallRisk initialState =
             Inr (initialState\<lparr>overallRisk := Some r, recommendation := Some c\<rparr>) \<and>
           color r = tierColor (level r) \<and>
           c = tierRecommendation (level r) \<and>
           length (details c) = 4 \<and>
           color r = getRiskColor (score r))"
  using calculateOverallRisk_color_recommendation[OF subScores_initial] subScores_initial
  by blast

text \<open>
  Claim C8. The weights \<^verbatim>\<open>calculateOverallRisk\<close> multiplies by are four constants, the same
  for every state: the Numbers that the literals 0.3, 0.35, 0.2 and 0.15 denote. Each lies
  between 0 and 1. In exact arithmetic the four Numbers add up to \<open>1 - 1 / 2 ^ 55\<close>; it
  is the four decimals that add up to 1.
\<close>

theorem calculateOverallRisk_weights:
  assumes "subScores (riskFactors st) = Inr (w, a, t, g)"
  shows "(\<exists>r c. calculateOverallRisk st =
                  Inr (st\<lparr>overallRisk := Some r, recommendation := Some c\<rparr>) \<and>
                score r =
                  jadd (jadd (jadd (jmul w (Fin (5404319552844595 / 18014398509481984)))
                                   (jmul a (Fin (3152519739159347 / 9007199254740992))))
                             (jmul t (Fin (3602879701896397 / 18014398509481984))))
                       (jmul g (Fin (5404319552844595 / 36028797018963968)))) \<and>
         lit (3 / 10) = Fin (5404319552844595 / 18014398509481984) \<and>
         lit (35 / 100) = Fin (3152519739159347 / 9007199254740992) \<and>
         lit (2 / 10) = Fin (3602879701896397 / 18014398509481984) \<and>
         lit (15 / 100) = Fin (5404319552844595 / 36028797018963968) \<and>
         (0 :: rat) \<le> 5404319552844595 / 18014398509481984 \<and>
         (5404319552844595 / 18014398509481984 :: rat) \<le> 1 \<and>
         (0 :: rat) \<le> 3152519739159347 / 9007199254740992 \<and>
         (3152519739159347 / 9007199254740992 :: rat) \<le> 1 \<and>
         (0 :: rat) \<le> 3602879701896397 / 18014398509481984 \<and>
         (3602879701896397 / 18014398509481984 :: rat) \<le> 1 \<and>
         (0 :: rat) \<le> 5404319552844595 / 36028797018963968 \<and>
         (5404319552844595 / 36028797018963968 :: rat) \<le> 1 \<and>
         5404319552844595 / 18014398509481984 + 3152519739159347 / 9007199254740992
           + 3602879701896397 / 18014398509481984 + 5404319552844595 / 36028797018963968
           = (1 - 1 / 2 ^ 55 :: rat) \<and>
         3 / 10 + 35 / 100 + 2 / 10 + 15 / 100 = (1 :: rat)"
proof -
  have 1: "\<exists>r c. calculateOverallRisk st =
                  Inr (st\<lparr>overallRisk := Some r, recommendation := Some c\<rparr>) \<and>
                score r =
                  jadd (jadd (jadd (jmul w (Fin (5404319552844595 / 18014398509481984)))
                                   (jmul a (Fin (3152519739159347 / 9007199254740992))))
                             (jmul t (Fin (3602879701896397 / 18014398509481984))))
                       (jmul g (Fin (5404319552844595 / 36028797018963968)))"
    by (intro exI conjI, rule calc_numeric[OF assms])
       (simp only: overallRisk.simps weightedScore_def weather_weight avalanche_weight
          terrain_weight group_weight)
  have 2: "lit (3 / 10) = Fin (5404319552844595 / 18014398509481984)"
          "lit (35 / 100) = Fin (3152519739159347 / 9007199254740992)"
          "lit (2 / 10) = Fin (3602879701896397 / 18014398509481984)"
          "lit (15 / 100) = Fin (5404319552844595 / 36028797018963968)"
    using weather_weight avalanche_weight terrain_weight group_weight
    by (simp_all add: weights_def weightLiterals_def)
  have 3: "(0 :: rat) \<le> 5404319552844595 / 18014398509481984 \<and>
         (5404319552844595 / 18014398509481984 :: rat) \<le> 1 \<and>
         (0 :: rat) \<le> 3152519739159347 / 9007199254740992 \<and>
         (3152519739159347 / 9007199254740992 :: rat) \<le> 1 \<and>
         (0 :: rat) \<le> 3602879701896397 / 18014398509481984 \<and>
         (3602879701896397 / 18014398509481984 :: rat) \<le> 1 \<and>
         (0 :: rat) \<le> 5404319552844595 / 36028797018963968 \<and>
         (5404319552844595 / 36028797018963968 :: rat) \<le> 1 \<and>
         5404319552844595 / 18014398509481984 + 3152519739159347 / 9007199254740992
           + 3602879701896397 / 18014398509481984 + 5404319552844595 / 36028797018963968
           = (1 - 1 / 2 ^ 55 :: rat) \<and>
         3 / 10 + 35 / 100 + 2 / 10 + 15 / 100 = (1 :: rat)"
    by simp
  from 1 2 3 show ?thesis by (intro conjI) (simp_all only:)
qed

theorem calculateOverallRisk_weights_witness:
  "subScores (riskFactors initialState) = Inr (Fin 6, Fin 7, Fin 5, Fin 4) \<and>
   (\<exists>r c. calculateOverallRisk initialState =
                  Inr (initialState\<lparr>overallRisk := Some r, recommendation := Some c\<rparr>) \<and>
                score r =
                  jadd (jadd (jadd (jmul (Fin 6) (Fin (5404319552844595 / 18014398509481984)))
                                   (jmul (Fin 7) (Fin (3152519739159347 / 9007199254740992))))
                             (jmul (Fin 5) (Fin (3602879701896397 / 18014398509481984))))
                       (jmul (Fin 4) (Fin (5404319552844595 / 36028797018963968))))"
  using calculateOverallRisk_weights[OF subScores_initial] subScores_initial by blast

text \<open>
  The object \<^verbatim>\<open>weights\<close> as the code holds it, and the sum of its four Numbers in exact
  arithmetic: not 1.
\<close>

theorem weights_sum_not_one_counterexample:
  "weights = \<lparr>weather = Fin (5404319552844595 / 18014398509481984),
              avalanche = Fin (3152519739159347 / 9007199254740992),
              terrain = Fin (3602879701896397 / 18014398509481984),
              group' = Fin (5404319552844595 / 36028797018963968)\<rparr> \<and>
   5404319552844595 / 18014398509481984 + 3152519739159347 / 9007199254740992
     + 3602879701896397 / 18014398509481984 + 5404319552844595 / 36028797018963968
     \<noteq> (1 :: rat)"
proof -
  have "weights = \<lparr>weather = weather weights, avalanche = avalanche weights,
                   terrain = terrain weights, group' = group' weights\<rparr>"
    by simp
  then have "weights = \<lparr>weather = Fin (5404319552844595 / 18014398509481984),
              avalanche = Fin (3152519739159347 / 9007199254740992),
              terrain = Fin (3602879701896397 / 18014398509481984),
              group' = Fin (5404319552844595 / 36028797018963968)\<rparr>"
    by (simp only: weather_weight avalanche_weight terrain_weight group_weight)
  then show ?thesis by simp
qed

text \<open>
  Claim C9. Totality. For every four numbers as sub-scores, in range or not, NaN and the
  infinities included, \<^verbatim>\<open>calculateOverallRisk\<close> raises nothing and stores a result. The
  score is the weighted sum as computed, never clamped; level and color are one of the four
  matching pairs; a score below 0 gives LOW and a score above 10 gives EXTREME.
\<close>

theorem calculateOverallRisk_total:
  assumes "subScores (riskFactors st) = Inr (w, a, t, g)"
  shows "\<exists>r c. calculateOverallRisk st =
                 Inr (st\<lparr>overallRisk := Some r, recommendation := Some c\<rparr>) \<and>
               score r =
                 jadd (jadd (jadd (jmul w (weather weights)) (jmul a (avalanche weights)))
                            (jmul t (terrain weights)))
                      (jmul g (group' weights)) \<and>
               (level r, color r) \<in> {(LOW, ''#10b981''), (MODERATE, ''#f59e0b''),
                                       (HIGH, ''#f97316''), (EXTREME, ''#dc2626'')} \<and>
               (jlt (score r) (lit 0) \<longrightarrow> level r = LOW) \<and>
               (jlt (lit 10) (score r) \<longrightarrow> level r = EXTREME)"
proof -
  let ?s = "weightedScore w a t g"
  let ?r = "\<lparr>score = ?s, level = riskLevelOf ?s, color = tierColor (riskLevelOf ?s),
             percentage = Math_round (jmul (jdiv ?s (lit 10)) (lit 100))\<rparr>"
  have 1: "calculateOverallRisk st =
           Inr (st\<lparr>overallRisk := Some ?r,
                   recommendation := Some (tierRecommendation (riskLevelOf ?s))\<rparr>)"
    by (rule calc_numeric[OF assms])
  have 2: "score ?r =
                 jadd (jadd (jadd (jmul w (weather weights)) (jmul a (avalanche weights)))
                            (jmul t (terrain weights)))
                      (jmul g (group' weights))"
    by (simp only: overallRisk.simps weightedScore_def)
  have 3: "(level ?r, color ?r) \<in> {(LOW, ''#10b981''), (MODERATE, ''#f59e0b''),
                                       (HIGH, ''#f97316''), (EXTREME, ''#dc2626'')}"
    by (simp only: overallRisk.simps) (rule level_color_pairs)
  have 4: "jlt (score ?r) (lit 0) \<longrightarrow> level ?r = LOW"
    by (simp only: overallRisk.simps) (rule impI, erule riskLevelOf_negative)
  have 5: "jlt (lit 10) (score ?r) \<longrightarrow> level ?r = EXTREME"
    by (simp only: overallRisk.simps) (rule impI, erule riskLevelOf_above_ten)
  from 1 2 3 4 5 show ?thesis by blast
qed

theorem calculateOverallRisk_total_witness:
  "(\<exists>r c. calculateOverallRisk (withScores (Fin (- 5)) (Fin (- 5)) (Fin (- 5)) (Fin (- 5)) initialState) =
             Inr ((withScores (Fin (- 5)) (Fin (- 5)) (Fin (- 5)) (Fin (- 5)) initialState)
                    \<lparr>overallRisk := Some r, recommendation := Some c\<rparr>) \<and>
           score r = Fin (- 5) \<and> jlt (score r) (lit 0) \<and> level r = LOW \<and> color r = ''#10b981'') \<and>
   (\<exists>r c. calculateOverallRisk (withScores (Fin 20) (Fin 20) (Fin 20) (Fin 20) initialState) =
             Inr ((withScores (Fin 20) (Fin 20) (Fin 20) (Fin 20) initialState)
                    \<lparr>overallRisk := Some r, recommendation := Some c\<rparr>) \<and>
           score r = Fin 20 \<and> jlt (lit 10) (score r) \<and> level r = EXTREME \<and> color r = ''#dc2626'')"
proof (rule conjI)
  let ?n = "withScores (Fin (- 5)) (Fin (- 5)) (Fin (- 5)) (Fin (- 5)) initialState"
  let ?p = "withScores (Fin 20) (Fin 20) (Fin 20) (Fin 20) initialState"
  obtain r c where 1: "calculateOverallRisk ?n = Inr (?n\<lparr>overallRisk := Some r, recommendation := Some c\<rparr>)"
    and 2: "score r = weightedScore (Fin (- 5)) (Fin (- 5)) (Fin (- 5)) (Fin (- 5))"
    and 3: "(level r, color r) \<in> {(LOW, ''#10b981''), (MODERATE, ''#f59e0b''),
                                       (HIGH, ''#f97316''), (EXTREME, ''#dc2626'')}"
    and 4: "jlt (score r) (lit 0) \<longrightarrow> level r = LOW"
    using calculateOverallRisk_total[OF subScores_withScores, of "Fin (- 5)" "Fin (- 5)" "Fin (- 5)" "Fin (- 5)" initialState]
    unfolding weightedScore_def by blast
  have 5: "score r = Fin (- 5)" using 2 by (simp only: weightedScore_m5_m5_m5_m5)
  then have 6: "jlt (score r) (lit 0)" by (simp add: lit_0)
  with 4 have 7: "level r = LOW" by simp
  with 3 have "color r = ''#10b981''" by simp
  with 1 5 6 7 show "\<exists>r c. calculateOverallRisk ?n = Inr (?n\<lparr>overallRisk := Some r, recommendation := Some c\<rparr>) \<and>
           score r = Fin (- 5) \<and> jlt (score r) (lit 0) \<and> level r = LOW \<and> color r = ''#10b981''" by blast
  obtain r c where 1: "calculateOverallRisk ?p = Inr (?p\<lparr>overallRisk := Some r, recommendation := Some c\<rparr>)"
    and 2: "score r = weightedScore (Fin 20) (Fin 20) (Fin 20) (Fin 20)"
    and 3: "(level r, color r) \<in> {(LOW, ''#10b981''), (MODERATE, ''#f59e0b''),
                                       (HIGH, ''#f97316''), (EXTREME, ''#dc2626'')}"
    and 4: "jlt (lit 10) (score r) \<longrightarrow> level r = EXTREME"
    using calculateOverallRisk_total[OF subScores_withScores, of "Fin 20" "Fin 20" "Fin 20" "Fin 20" initialState]
    unfolding weightedScore_def by blast
  have 5: "score r = Fin 20" using 2 by (simp only: weightedScore_20_20_20_20)
  then have 6: "jlt (lit 10) (score r)" by (simp add: lit_10)
  with 4 have 7: "level r = EXTREME" by simp
  with 3 have "color r = ''#dc2626''" by simp
  with 1 5 6 7 show "\<exists>r c. calculateOverallRisk ?p = Inr (?p\<lparr>overallRisk := Some r, recommendation := Some c\<rparr>) \<and>
           score r = Fin 20 \<and> jlt (lit 10) (score r) \<and> level r = EXTREME \<and> color r = ''#dc2626''" by blast
qed

text \<open>
  Claim C10. Frame property. After \<^verbatim>\<open>updateRiskFactor(category, field, value)\<close> the named
  category holds \<open>value\<close> in the named field and, in every other field, what it held
  before (nothing, where the category was not there); every other category is as it was,
  and so are \<^verbatim>\<open>overallRisk\<close> and \<^verbatim>\<open>recommendation\<close>.
\<close>

theorem updateRiskFactor_frame:
  "(\<exists>f. riskFactors (updateRiskFactor category field val st) category = Some f \<and>
        f field = Some val \<and>
        (\<forall>field'. field' \<noteq> field \<longrightarrow>
           f field' = (case riskFactors st category of None \<Rightarrow> None | Some f0 \<Rightarrow> f0 field'))) \<and>
   (\<forall>category'. category' \<noteq> category \<longrightarrow>
      riskFactors (updateRiskFactor category field val st) category' = riskFactors st category') \<and>
   overallRisk (updateRiskFactor category field val st) = overallRisk st \<and>
   recommendation (updateRiskFactor category field val st) = recommendation st"
  by (cases "riskFactors st category") (simp_all add: updateRiskFactor_def)

theorem updateRiskFactor_frame_witness:
  "''temperature'' \<noteq> ''score'' \<and> ''avalanche'' \<noteq> ''weather'' \<and>
   (\<exists>f. riskFactors (updateRiskFactor ''weather'' ''score'' (Num (lit 8)) initialState) ''weather'' = Some f \<and>
        f ''score'' = Some (Num (lit 8)) \<and>
        f ''temperature'' = Some (Num (lit (- 5)))) \<and>
   riskFactors (updateRiskFactor ''weather'' ''score'' (Num (lit 8)) initialState) ''avalanche'' =
     riskFactors initialState ''avalanche''"
proof -
  have n: "''temperature'' \<noteq> ''score''" "''avalanche'' \<noteq> ''weather''" by simp_all
  have i: "(case riskFactors initialState ''weather'' of None \<Rightarrow> None | Some f0 \<Rightarrow> f0 ''temperature'')
           = Some (Num (lit (- 5)))"
    by (simp add: initialState_def initialRiskFactors_def)
  obtain f where a: "riskFactors (updateRiskFactor ''weather'' ''score'' (Num (lit 8)) initialState) ''weather'' = Some f"
    and b: "f ''score'' = Some (Num (lit 8))"
    and c: "\<forall>field'. field' \<noteq> ''score'' \<longrightarrow>
              f field' = (case riskFactors initialState ''weather'' of None \<Rightarrow> None | Some f0 \<Rightarrow> f0 field')"
    and d: "\<forall>category'. category' \<noteq> ''weather'' \<longrightarrow>
              riskFactors (updateRiskFactor ''weather'' ''score'' (Num (lit 8)) initialState) category' =
              riskFactors initialState category'"
    using updateRiskFactor_frame[of "''weather''" "''score''" "Num (lit 8)" initialState] by blast
  have e: "f ''temperature'' = Some (Num (lit (- 5)))"
    using c[rule_format, OF n(1)] i by (simp only:)
  have g: "riskFactors (updateRiskFactor ''weather'' ''score'' (Num (lit 8)) initialState) ''avalanche'' =
           riskFactors initialState ''avalanche''"
    by (rule d[rule_format, OF n(2)])
  from n a b e g show ?thesis by blast
qed

end
